theory Spec2Isabelle
  imports Complex_Main "HOL-Library.Code_Target_Nat"
begin

text \<open>
  A shallow embedding of \<open>scraper.py\<close>: the Detail Parser (\<open>extract_row_data_from_soup\<close>,
  \<open>extract_row_data\<close>), the Row Expander (\<open>expand_row\<close>), the Paginator
  (\<open>get_total_pages\<close>, \<open>go_to_next_page\<close>) and the page loop of \<open>scrape_all\<close>.  The
  definitions follow the source function by function; the calls into BeautifulSoup and
  Selenium are modelled by a parse tree and by a record of browser operations.  Log
  lines are left out.
\<close>

section \<open>Python strings\<close>

text \<open>
  A Python \<open>str\<close> is a sequence of Unicode code points: it is modelled as a list of
  natural numbers.  \<open>py\<close> gives the value of a string literal of the source whose
  characters are ASCII; the other characters of literals are written as numbers.
\<close>

type_synonym codepoint = nat

type_synonym pystr = "codepoint list"

definition py :: "string \<Rightarrow> pystr" where
  "py s = map of_char s"

text \<open>
  \<open>str.isspace\<close> for one code point.  The same code points are the class \<open>\s\<close> of the
  module \<open>re\<close> on a \<open>str\<close> pattern, the characters that \<open>str.strip()\<close> removes and the
  separators of \<open>str.split()\<close>: the ASCII ones (9-13, 28-32) and U+0085, U+00A0, U+1680,
  U+2000-U+200A, U+2028, U+2029, U+202F, U+205F, U+3000.
\<close>

definition is_space :: "codepoint \<Rightarrow> bool" where
  "is_space c =
     ((0x09 \<le> c \<and> c \<le> 0x0D) \<or> (0x1C \<le> c \<and> c \<le> 0x20) \<or> c = 0x85 \<or> c = 0xA0
      \<or> c = 0x1680 \<or> (0x2000 \<le> c \<and> c \<le> 0x200A) \<or> c = 0x2028 \<or> c = 0x2029
      \<or> c = 0x202F \<or> c = 0x205F \<or> c = 0x3000)"

text \<open>
  The decimal digits of Unicode (category \<open>Nd\<close>): the class \<open>\d\<close> of the module \<open>re\<close> on
  a \<open>str\<close> pattern, and the digits that \<open>int\<close> reads.  They come in runs of ten
  consecutive code points for the values 0 to 9; \<open>digit_zeros\<close> lists the first code
  point of each run (Unicode 14: ASCII, Arabic-Indic, Devanagari, ..., fullwidth,
  mathematical digits, ...).
\<close>

definition digit_zeros :: "codepoint list" where
  "digit_zeros =
     [48, 1632, 1776, 1984, 2406, 2534, 2662, 2790, 2918, 3046, 3174, 3302, 3430, 3558,
      3664, 3792, 3872, 4160, 4240, 6112, 6160, 6470, 6608, 6784, 6800, 6992, 7088, 7232,
      7248, 42528, 43216, 43264, 43472, 43504, 43600, 44016, 65296, 66720, 68912, 69734,
      69872, 69942, 70096, 70384, 70736, 70864, 71248, 71360, 71472, 71904, 72016, 72784,
      73040, 73120, 92768, 92864, 93008, 120782, 120792, 120802, 120812, 120822, 123200,
      123632, 125264, 130032]"

definition digit_zero :: "codepoint \<Rightarrow> codepoint option" where
  "digit_zero c = find (\<lambda>z. z \<le> c \<and> c < z + 10) digit_zeros"

definition is_digit :: "codepoint \<Rightarrow> bool" where
  "is_digit c = (digit_zero c \<noteq> None)"

definition digit_value :: "codepoint \<Rightarrow> nat" where
  "digit_value c = (case digit_zero c of None \<Rightarrow> 0 | Some z \<Rightarrow> c - z)"

text \<open>
  \<open>str.isdigit\<close> for one code point: the decimal digits and the other characters with
  a digit value (superscripts, subscripts, circled digits, ...).
\<close>

definition isdigit_ranges :: "(codepoint \<times> codepoint) list" where
  "isdigit_ranges =
     [(178, 179), (185, 185), (4969, 4977), (6618, 6618), (8304, 8304), (8308, 8313),
      (8320, 8329), (9312, 9320), (9332, 9340), (9352, 9360), (9450, 9450), (9461, 9469),
      (9471, 9471), (10102, 10110), (10112, 10120), (10122, 10130), (68160, 68163),
      (69216, 69224), (69714, 69722), (127232, 127242)]"

definition is_isdigit :: "codepoint \<Rightarrow> bool" where
  "is_isdigit c = (is_digit c \<or> list_ex (\<lambda>r. fst r \<le> c \<and> c \<le> snd r) isdigit_ranges)"

text \<open>\<open>s.strip(chars)\<close>: drop the characters satisfying \<open>p\<close> at both ends.\<close>

definition strip_where :: "(codepoint \<Rightarrow> bool) \<Rightarrow> pystr \<Rightarrow> pystr" where
  "strip_where p s = rev (dropWhile p (rev (dropWhile p s)))"

definition py_strip :: "pystr \<Rightarrow> pystr" where
  "py_strip s = strip_where is_space s"

text \<open>\<open>s.strip('"')\<close>\<close>

definition strip_quotes :: "pystr \<Rightarrow> pystr" where
  "strip_quotes s = strip_where (\<lambda>c. c = 0x22) s"

text \<open>
  \<open>s.lower()\<close>.  The scraper calls it only to test whether the result holds
  \<open>status:\<close> or \<open>next\<close>.  The model maps each code point whose lower case holds an ASCII
  character to its lower case: \<open>A\<close>..\<open>Z\<close>, U+0130 (to \<open>i\<close> and U+0307) and U+212A (the
  Kelvin sign, to \<open>k\<close>).  Every other code point has a lower case without ASCII
  characters and is left in place, which makes no difference to a test for a string of
  ASCII characters.
\<close>

definition lower_codepoint :: "codepoint \<Rightarrow> pystr" where
  "lower_codepoint c =
     (if 0x41 \<le> c \<and> c \<le> 0x5A then [c + 32]
      else if c = 0x130 then [0x69, 0x307]
      else if c = 0x212A then [0x6B]
      else [c])"

definition py_lower :: "pystr \<Rightarrow> pystr" where
  "py_lower s = concat (map lower_codepoint s)"

text \<open>\<open>s.startswith(p)\<close>\<close>

fun startswith :: "pystr \<Rightarrow> pystr \<Rightarrow> bool" where
  "startswith s [] = True"
| "startswith [] (p # ps) = False"
| "startswith (c # cs) (p # ps) = (c = p \<and> startswith cs ps)"

text \<open>\<open>s.endswith(p)\<close>\<close>

definition endswith :: "pystr \<Rightarrow> pystr \<Rightarrow> bool" where
  "endswith s p = startswith (rev s) (rev p)"

text \<open>\<open>sub in s\<close>\<close>

fun py_in :: "pystr \<Rightarrow> pystr \<Rightarrow> bool" where
  "py_in sub [] = (sub = [])"
| "py_in sub (c # cs) = (startswith (c # cs) sub \<or> py_in sub cs)"

text \<open>\<open>s.split(sep)\<close> for a separator of one character: always at least one piece.\<close>

fun py_split :: "codepoint \<Rightarrow> pystr \<Rightarrow> pystr list" where
  "py_split sep [] = [[]]"
| "py_split sep (c # cs) =
     (if c = sep then [] # py_split sep cs
      else (case py_split sep cs of
              [] \<Rightarrow> [[c]]
            | piece # pieces \<Rightarrow> (c # piece) # pieces))"

text \<open>\<open>s.split(sep, 1)[1]\<close>, used only under the guard \<open>sep in s\<close>: the text after the
  first separator.\<close>

definition after_first :: "codepoint \<Rightarrow> pystr \<Rightarrow> pystr" where
  "after_first sep s = drop 1 (dropWhile (\<lambda>c. c \<noteq> sep) s)"

text \<open>\<open>s.split()\<close>: the maximal runs of characters that are not white space.\<close>

fun split_ws :: "pystr \<Rightarrow> pystr \<Rightarrow> pystr list" where
  "split_ws cur [] = (if cur = [] then [] else [cur])"
| "split_ws cur (c # cs) =
     (if is_space c then (if cur = [] then split_ws [] cs else cur # split_ws [] cs)
      else split_ws (cur @ [c]) cs)"

text \<open>\<open>sep.join(parts)\<close>\<close>

fun py_join :: "pystr \<Rightarrow> pystr list \<Rightarrow> pystr" where
  "py_join sep [] = []"
| "py_join sep [p] = p"
| "py_join sep (p # q # ps) = p @ sep @ py_join sep (q # ps)"

section \<open>Exceptions\<close>

text \<open>
  The exceptions that the modelled code can meet.  Every class is caught by
  \<open>except Exception\<close>; \<open>NoSuchElementException\<close> and \<open>TimeoutException\<close> are the two
  Selenium classes the code also catches by name, and \<open>WebDriverException\<close> stands for
  any other error of the browser session (a stale element reference, a script error).
\<close>

datatype exn =
    IndexError
  | KeyError
  | ValueError
  | NoSuchElementException
  | TimeoutException
  | WebDriverException

text \<open>A computation that raises or returns: \<open>Inl\<close> is the raised exception.\<close>

definition ebind :: "exn + 'a \<Rightarrow> ('a \<Rightarrow> exn + 'b) \<Rightarrow> exn + 'b" where
  "ebind m f = (case m of Inl e \<Rightarrow> Inl e | Inr x \<Rightarrow> f x)"

text \<open>\<open>xs[i]\<close> for \<open>i \<ge> 0\<close>\<close>

definition py_index :: "'a list \<Rightarrow> nat \<Rightarrow> exn + 'a" where
  "py_index xs i = (if i < length xs then Inr (xs ! i) else Inl IndexError)"

text \<open>\<open>[f(x) for x in xs]\<close> where \<open>f\<close> may raise\<close>

fun emap :: "('a \<Rightarrow> exn + 'b) \<Rightarrow> 'a list \<Rightarrow> exn + 'b list" where
  "emap f [] = Inr []"
| "emap f (x # xs) = ebind (f x) (\<lambda>y. ebind (emap f xs) (\<lambda>ys. Inr (y # ys)))"

section \<open>The parse tree of BeautifulSoup\<close>

text \<open>
  A parsed page is a tree of \<open>NavigableString\<close> and \<open>Tag\<close> objects.  A tag has a name, its
  attributes (an association list read with \<open>map_of\<close>; the value of \<open>class\<close> is kept as
  the text of the attribute) and its children in document order.  The functions below
  are the operations of the library that the scraper calls.
\<close>

datatype node =
    NavigableString pystr
  | Tag pystr "(pystr \<times> pystr) list" "node list"

text \<open>\<open>element.name\<close>: \<open>None\<close> on a string\<close>

fun node_name :: "node \<Rightarrow> pystr option" where
  "node_name (NavigableString s) = None"
| "node_name (Tag n attrs cs) = Some n"

fun node_attrs :: "node \<Rightarrow> (pystr \<times> pystr) list" where
  "node_attrs (NavigableString s) = []"
| "node_attrs (Tag n attrs cs) = attrs"

text \<open>\<open>tag.get(key, default)\<close>\<close>

definition tag_get :: "node \<Rightarrow> pystr \<Rightarrow> pystr \<Rightarrow> pystr" where
  "tag_get t key dflt = (case map_of (node_attrs t) key of None \<Rightarrow> dflt | Some v \<Rightarrow> v)"

text \<open>\<open>tag[key]\<close>\<close>

definition tag_item :: "node \<Rightarrow> pystr \<Rightarrow> exn + pystr" where
  "tag_item t key = (case map_of (node_attrs t) key of None \<Rightarrow> Inl KeyError | Some v \<Rightarrow> Inr v)"

text \<open>\<open>tag.descendants\<close>: every node below the tag, in document order\<close>

fun descendants :: "node \<Rightarrow> node list" where
  "descendants (NavigableString s) = []"
| "descendants (Tag n attrs cs) = concat (map (\<lambda>c. c # descendants c) cs)"

text \<open>\<open>tag.find_all(...)\<close> and \<open>tag.find(...)\<close> with the match given as a predicate\<close>

definition find_all :: "(node \<Rightarrow> bool) \<Rightarrow> node \<Rightarrow> node list" where
  "find_all p t = filter p (descendants t)"

text \<open>
  \<open>tag.find(...)\<close> returns the first match in document order; the model returns with it
  the nodes that follow it under the same parent, which is what \<open>.next_siblings\<close> of the
  found element yields.
\<close>

fun find_in :: "(node \<Rightarrow> bool) \<Rightarrow> node list \<Rightarrow> (node \<times> node list) option"
  and find_below :: "(node \<Rightarrow> bool) \<Rightarrow> node \<Rightarrow> (node \<times> node list) option" where
  "find_in p [] = None"
| "find_in p (c # cs) =
     (if p c then Some (c, cs)
      else (case find_below p c of
              Some r \<Rightarrow> Some r
            | None \<Rightarrow> find_in p cs))"
| "find_below p (NavigableString s) = None"
| "find_below p (Tag n attrs cs) = find_in p cs"

definition find_first :: "(node \<Rightarrow> bool) \<Rightarrow> node \<Rightarrow> node option" where
  "find_first p t = map_option fst (find_below p t)"

text \<open>
  \<open>tag.get_text(separator, strip)\<close>: the strings below the tag in document order; with
  \<open>strip\<close> each is stripped and the empty ones are left out.
\<close>

fun node_strings :: "node \<Rightarrow> pystr list" where
  "node_strings (NavigableString s) = [s]"
| "node_strings (Tag n attrs cs) = concat (map node_strings cs)"

definition all_strings :: "bool \<Rightarrow> node \<Rightarrow> pystr list" where
  "all_strings strip t =
     (if strip then filter (\<lambda>s. s \<noteq> []) (map py_strip (node_strings t))
      else node_strings t)"

definition get_text :: "pystr \<Rightarrow> bool \<Rightarrow> node \<Rightarrow> pystr" where
  "get_text separator strip t = py_join separator (all_strings strip t)"

text \<open>\<open>tag.string\<close>: the single string of a tag that has exactly one child, if any\<close>

fun tag_string :: "node \<Rightarrow> pystr option" where
  "tag_string (NavigableString s) = Some s"
| "tag_string (Tag n attrs [c]) = tag_string c"
| "tag_string (Tag n attrs cs) = None"

text \<open>The matches the scraper asks for.\<close>

definition is_tag :: "pystr \<Rightarrow> node \<Rightarrow> bool" where
  "is_tag name t = (node_name t = Some name)"

text \<open>\<open>find('td', class_='details')\<close>: one of the classes of the tag is \<open>details\<close>\<close>

definition has_class :: "pystr \<Rightarrow> node \<Rightarrow> bool" where
  "has_class cls t =
     (case map_of (node_attrs t) (py ''class'') of
        None \<Rightarrow> False
      | Some v \<Rightarrow> cls \<in> set (split_ws [] v))"

text \<open>\<open>find_all('a', href=True)\<close>: the attribute is present\<close>

definition has_attr :: "pystr \<Rightarrow> node \<Rightarrow> bool" where
  "has_attr key t = (map_of (node_attrs t) key \<noteq> None)"

text \<open>\<open>find('b', string=f)\<close>: \<open>f\<close> is called on \<open>tag.string\<close>, which may be \<open>None\<close>; both
  lambdas of the scraper start with \<open>text and ...\<close>.\<close>

definition string_matches :: "(pystr \<Rightarrow> bool) \<Rightarrow> node \<Rightarrow> bool" where
  "string_matches f t =
     (case tag_string t of None \<Rightarrow> False | Some s \<Rightarrow> s \<noteq> [] \<and> f s)"

section \<open>The Record\<close>

text \<open>The dictionary that the extraction returns for one table row, with its eight keys.\<close>

record dei_record =
  institution :: pystr
  state :: pystr
  impacts :: pystr
  source :: pystr
  source_links :: "pystr list"
  details :: pystr
  state_status :: pystr
  row_id :: pystr

section \<open>Detail Parser: \<open>extract_row_data_from_soup\<close>\<close>

subsection \<open>Structured extraction\<close>

text \<open>
  The loop over \<open>details_bold.next_siblings\<close>: line breaks are skipped, a string is
  kept when it is not empty, does not start with a quote and does not hold \<open>status:\<close>,
  a \<open>b\<close> tag holding \<open>status:\<close> ends the loop, and any other tag contributes its text.
\<close>

fun details_siblings :: "node list \<Rightarrow> pystr list \<Rightarrow> pystr list" where
  "details_siblings [] details_text_parts = details_text_parts"
| "details_siblings (NavigableString s # rest) details_text_parts =
     (let text = py_strip s in
      if text \<noteq> [] \<and> \<not> startswith text [0x22] \<and> \<not> py_in (py ''status:'') (py_lower text)
      then details_siblings rest (details_text_parts @ [strip_quotes text])
      else details_siblings rest details_text_parts)"
| "details_siblings (Tag n attrs cs # rest) details_text_parts =
     (if n = py ''br'' then details_siblings rest details_text_parts
      else if n = py ''b'' \<and> py_in (py ''status:'') (py_lower (get_text [] False (Tag n attrs cs)))
      then details_text_parts
      else (let text = get_text [] True (Tag n attrs cs) in
            if text \<noteq> [] \<and> \<not> py_in (py ''status:'') (py_lower text)
            then details_siblings rest (details_text_parts @ [strip_quotes text])
            else details_siblings rest details_text_parts))"

definition structured_details :: "node \<Rightarrow> pystr" where
  "structured_details details_cell =
     (case find_below (\<lambda>t. is_tag (py ''b'') t \<and> string_matches (\<lambda>text. py_in (py ''Details'') text) t)
             details_cell of
        None \<Rightarrow> []
      | Some (details_bold, next_siblings) \<Rightarrow>
          py_strip (py_join (py '' '') (details_siblings next_siblings [])))"

text \<open>
  The loop over \<open>status_bold.next_siblings\<close>: the first sibling with a non-empty text
  replaces the value found inside the bold tag, and ends the loop.
\<close>

fun status_siblings :: "node list \<Rightarrow> pystr \<Rightarrow> pystr" where
  "status_siblings [] status = status"
| "status_siblings (NavigableString s # rest) status =
     (let text = strip_quotes (py_strip s) in
      if text \<noteq> [] then text else status_siblings rest status)"
| "status_siblings (Tag n attrs cs # rest) status =
     (if n = py ''br'' then status_siblings rest status
      else (let text = strip_quotes (get_text [] True (Tag n attrs cs)) in
            if text \<noteq> [] then text else status_siblings rest status))"

definition structured_status :: "node \<Rightarrow> pystr" where
  "structured_status details_cell =
     (case find_below
             (\<lambda>t. is_tag (py ''b'') t \<and> string_matches (\<lambda>text. py_in (py ''status:'') (py_lower text)) t)
             details_cell of
        None \<Rightarrow> []
      | Some (status_bold, next_siblings) \<Rightarrow>
          (let status_text = get_text [] False status_bold;
               status = (if py_in (py '':'') status_text
                         then py_strip (after_first 0x3A status_text) else [])
           in status_siblings next_siblings status))"

subsection \<open>Fallback extraction\<close>

text \<open>The loop over the non-empty lines of the text of the details cell.\<close>

fun fallback_lines ::
  "pystr list \<Rightarrow> bool \<Rightarrow> bool \<Rightarrow> pystr list \<Rightarrow> pystr list \<Rightarrow> pystr list \<times> pystr list" where
  "fallback_lines [] in_details in_status details_parts status_parts =
     (details_parts, status_parts)"
| "fallback_lines (line # rest) in_details in_status details_parts status_parts =
     (if py_in (py ''Details'') line \<and> \<not> in_details
      then fallback_lines rest True False details_parts status_parts
      else if py_in (py ''status:'') (py_lower line)
      then fallback_lines rest False True details_parts
             (if py_in (py '':'') line
              then status_parts @ [strip_quotes (py_strip (after_first 0x3A line))]
              else status_parts)
      else if in_details \<and> \<not> in_status
      then fallback_lines rest in_details in_status (details_parts @ [strip_quotes line]) status_parts
      else if in_status
      then fallback_lines rest in_details in_status details_parts (status_parts @ [strip_quotes line])
      else fallback_lines rest in_details in_status details_parts status_parts)"

text \<open>
  The block under \<open>if not details or not state_status\<close>: it takes the two values of the
  structured extraction and returns the two values after the block.
\<close>

definition fallback_merge :: "node \<Rightarrow> pystr \<times> pystr \<Rightarrow> pystr \<times> pystr" where
  "fallback_merge details_cell structured =
     (case structured of (details0, status0) \<Rightarrow>
        if details0 = [] \<or> status0 = []
        then (let full_text = get_text [0x0A] True details_cell;
                  lines = filter (\<lambda>line. line \<noteq> []) (map py_strip (py_split 0x0A full_text));
                  parts = fallback_lines lines False False [] [];
                  details1 = (if details0 = [] \<and> fst parts \<noteq> []
                              then py_join (py '' '') (fst parts) else details0);
                  status1 = (if status0 = [] \<and> snd parts \<noteq> []
                             then py_join (py '' '') (snd parts) else status0)
              in (details1, status1))
        else (details0, status0))"

text \<open>
  The block under \<open>if details_row_soup\<close>.  Nothing in it raises on a parse tree, so its
  \<open>except\<close> clause has no branch here.  Without a details row, or without a
  \<open>td.details\<close> cell in it, both values stay empty.
\<close>

definition extract_details :: "node option \<Rightarrow> pystr \<times> pystr" where
  "extract_details details_row_soup =
     (case details_row_soup of
        None \<Rightarrow> ([], [])
      | Some details_row \<Rightarrow>
          (case find_first (\<lambda>t. is_tag (py ''td'') t \<and> has_class (py ''details'') t) details_row of
             None \<Rightarrow> ([], [])
           | Some details_cell \<Rightarrow>
               fallback_merge details_cell
                 (structured_details details_cell, structured_status details_cell)))"

subsection \<open>Main cells\<close>

text \<open>\<open>cells[i].get_text(strip=True) if len(cells) > i else ""\<close>\<close>

definition cell_text :: "node list \<Rightarrow> nat \<Rightarrow> exn + pystr" where
  "cell_text cells i =
     (if length cells > i then ebind (py_index cells i) (\<lambda>c. Inr (get_text [] True c))
      else Inr [])"

text \<open>The links of the source cell: \<open>[link['href'] for link in cells[3].find_all('a', href=True)]\<close>\<close>

definition cell_links :: "node list \<Rightarrow> exn + pystr list" where
  "cell_links cells =
     (if length cells > 3
      then ebind (py_index cells 3)
             (\<lambda>c. emap (\<lambda>link. tag_item link (py ''href''))
                    (find_all (\<lambda>t. is_tag (py ''a'') t \<and> has_attr (py ''href'') t) c))
      else Inr [])"

text \<open>The body of the outer \<open>try\<close>.\<close>

definition row_fields :: "node \<Rightarrow> node option \<Rightarrow> exn + dei_record option" where
  "row_fields row_soup details_row_soup =
     (let rid = tag_get row_soup (py ''id'') [] in
      if rid = [] then Inr None
      else (let cells = find_all (is_tag (py ''td'')) row_soup in
            if length cells < 3 then Inr None
            else ebind (cell_text cells 0) (\<lambda>inst.
                 ebind (cell_text cells 1) (\<lambda>st.
                 ebind (cell_text cells 2) (\<lambda>imp.
                 ebind (cell_text cells 3) (\<lambda>src.
                 ebind (cell_links cells) (\<lambda>links.
                 (case extract_details details_row_soup of (dtl, status) \<Rightarrow>
                    Inr (Some \<lparr>institution = inst, state = st, impacts = imp, source = src,
                               source_links = links, details = dtl, state_status = status,
                               row_id = rid\<rparr>)))))))))"

text \<open>
  The function: \<open>None\<close> when the parser library is not available, and \<open>None\<close> when the
  body raises.
\<close>

definition extract_row_data_from_soup :: "bool \<Rightarrow> node \<Rightarrow> node option \<Rightarrow> dei_record option" where
  "extract_row_data_from_soup BEAUTIFULSOUP_AVAILABLE row_soup details_row_soup =
     (if \<not> BEAUTIFULSOUP_AVAILABLE then None
      else (case row_fields row_soup details_row_soup of
              Inl e \<Rightarrow> None
            | Inr r \<Rightarrow> r))"

section \<open>The browser session\<close>

text \<open>
  The browser behind Selenium is an external collaborator.  It is modelled by a state of
  an arbitrary type \<open>'s\<close> and a record of its operations.  The reads (\<open>find_element\<close>,
  \<open>find_elements\<close>, \<open>get_attribute\<close>, \<open>.text\<close>, \<open>is_displayed\<close>, \<open>is_enabled\<close> and the
  parse of \<open>page_source\<close> by BeautifulSoup) answer from the state and may raise; they
  do not change it.  The state changes through the three scripts that the scraper runs
  with \<open>execute_script\<close> (each may raise), through the bounded wait for an element
  (which raises \<open>TimeoutException\<close> when the element does not appear) and through
  \<open>time.sleep\<close>, given here in milliseconds.  An element handle is a number; the scope
  of a search is \<open>None\<close> for the driver and \<open>Some el\<close> for an element.  The theorems hold
  for every such record.
\<close>

datatype locator = CSS_SELECTOR | XPATH | LINK_TEXT | ID

type_synonym web_element = nat

datatype script =
    ScrollToBottom
  | ScrollIntoView web_element
  | Click web_element

record 's webdriver =
  find_element :: "web_element option \<Rightarrow> locator \<Rightarrow> pystr \<Rightarrow> 's \<Rightarrow> exn + web_element"
  find_elements :: "web_element option \<Rightarrow> locator \<Rightarrow> pystr \<Rightarrow> 's \<Rightarrow> exn + web_element list"
  get_attribute :: "web_element \<Rightarrow> pystr \<Rightarrow> 's \<Rightarrow> exn + pystr option"
  element_text :: "web_element \<Rightarrow> 's \<Rightarrow> exn + pystr"
  is_displayed :: "web_element \<Rightarrow> 's \<Rightarrow> exn + bool"
  is_enabled :: "web_element \<Rightarrow> 's \<Rightarrow> exn + bool"
  page_soup :: "'s \<Rightarrow> exn + node"
  execute_script :: "script \<Rightarrow> 's \<Rightarrow> exn option \<times> 's"
  wait_presence :: "pystr \<Rightarrow> 's \<Rightarrow> (exn + unit) \<times> 's"
  sleep :: "nat \<Rightarrow> 's \<Rightarrow> 's"

text \<open>
  A run carries the state of the browser and the list of the scripts dispatched so far,
  each with its outcome (\<open>None\<close>: the script returned, \<open>Some e\<close>: it raised \<open>e\<close>).
  A program maps a run to its result and the run after it; \<open>Inl e\<close> is a raised
  exception.
\<close>

type_synonym 's run = "'s \<times> (script \<times> exn option) list"

type_synonym ('s, 'a) prog = "'s run \<Rightarrow> (exn + 'a) \<times> 's run"

definition pret :: "'a \<Rightarrow> ('s, 'a) prog" where
  "pret x = (\<lambda>st. (Inr x, st))"

definition pbind :: "('s, 'a) prog \<Rightarrow> ('a \<Rightarrow> ('s, 'b) prog) \<Rightarrow> ('s, 'b) prog" where
  "pbind m f = (\<lambda>st. case m st of (Inl e, st') \<Rightarrow> (Inl e, st') | (Inr x, st') \<Rightarrow> f x st')"

text \<open>\<open>try: m  except <caught>: handler\<close>\<close>

definition try_except :: "('s, 'a) prog \<Rightarrow> (exn \<Rightarrow> bool) \<Rightarrow> ('s, 'a) prog \<Rightarrow> ('s, 'a) prog" where
  "try_except m caught handler =
     (\<lambda>st. case m st of
              (Inl e, st') \<Rightarrow> if caught e then handler st' else (Inl e, st')
            | (Inr x, st') \<Rightarrow> (Inr x, st'))"

text \<open>The outcome of a program as a value, for a \<open>try\<close> whose handler goes on with what
  the body had already stored.\<close>

definition outcome :: "('s, 'a) prog \<Rightarrow> ('s, exn + 'a) prog" where
  "outcome m = (\<lambda>st. case m st of (r, st') \<Rightarrow> (Inr r, st'))"

definition any_exception :: "exn \<Rightarrow> bool" where
  "any_exception e = True"

definition no_such_element :: "exn \<Rightarrow> bool" where
  "no_such_element e = (e = NoSuchElementException)"

definition is_timeout :: "exn \<Rightarrow> bool" where
  "is_timeout e = (e = TimeoutException)"

definition query :: "('s \<Rightarrow> exn + 'a) \<Rightarrow> ('s, 'a) prog" where
  "query q = (\<lambda>st. (q (fst st), st))"

text \<open>A value computed without the browser, which may be a raised exception.\<close>

definition lift :: "exn + 'a \<Rightarrow> ('s, 'a) prog" where
  "lift r = (\<lambda>st. (r, st))"

text \<open>\<open>self.driver.execute_script(...)\<close>: the dispatch is recorded with its outcome.\<close>

definition run_script :: "'s webdriver \<Rightarrow> script \<Rightarrow> ('s, unit) prog" where
  "run_script D sc =
     (\<lambda>st. case execute_script D sc (fst st) of
              (None, s') \<Rightarrow> (Inr (), (s', snd st @ [(sc, None)]))
            | (Some e, s') \<Rightarrow> (Inl e, (s', snd st @ [(sc, Some e)])))"

text \<open>\<open>time.sleep(...)\<close>, in milliseconds\<close>

definition time_sleep :: "'s webdriver \<Rightarrow> nat \<Rightarrow> ('s, unit) prog" where
  "time_sleep D ms = (\<lambda>st. (Inr (), (sleep D ms (fst st), snd st)))"

text \<open>\<open>WebDriverWait(self.driver, self.wait_time).until(EC.presence_of_element_located(...))\<close>\<close>

definition wait_until_presence :: "'s webdriver \<Rightarrow> pystr \<Rightarrow> ('s, unit) prog" where
  "wait_until_presence D selector =
     (\<lambda>st. case wait_presence D selector (fst st) of (r, s') \<Rightarrow> (r, (s', snd st)))"

text \<open>The successful clicks among the dispatched scripts.\<close>

fun is_click :: "script \<times> exn option \<Rightarrow> bool" where
  "is_click (Click el, None) = True"
| "is_click other = False"

definition clicks :: "'s run \<Rightarrow> (script \<times> exn option) list" where
  "clicks st = filter is_click (snd st)"

section \<open>Row Expander: \<open>expand_row\<close>\<close>

text \<open>
  The loop of strategy 1 over the selectors of a toggle control.  Its result says
  whether the function has returned \<open>True\<close> from inside the loop.
\<close>

fun click_toggle :: "'s webdriver \<Rightarrow> bool \<Rightarrow> web_element \<Rightarrow> pystr list \<Rightarrow> ('s, bool) prog" where
  "click_toggle D fast first_cell [] = pret False"
| "click_toggle D fast first_cell (selector # rest) =
     pbind (try_except
              (pbind (query (find_element D (Some first_cell) CSS_SELECTOR selector)) (\<lambda>btn.
               pbind (query (is_displayed D btn)) (\<lambda>displayed.
                 if displayed
                 then pbind (run_script D (Click btn)) (\<lambda>_.
                      pbind (time_sleep D (if fast then 500 else 1000)) (\<lambda>_. pret True))
                 else pret False)))
              no_such_element (pret False))
       (\<lambda>returned. if returned then pret True else click_toggle D fast first_cell rest)"

definition toggle_selectors :: "pystr list" where
  "toggle_selectors =
     [py ''button'', py ''[role='' @ [0x27] @ py ''button'' @ [0x27] @ py '']'', py ''a'',
      py ''.toggle'', py ''.expand'', py ''.collapse'',
      py ''[class*='' @ [0x27] @ py ''toggle'' @ [0x27] @ py '']'',
      py ''[class*='' @ [0x27] @ py ''expand'' @ [0x27] @ py '']'',
      py ''[class*='' @ [0x27] @ py ''icon'' @ [0x27] @ py '']'',
      py ''span[class*='' @ [0x27] @ py ''icon'' @ [0x27] @ py '']'',
      py ''span[class*='' @ [0x27] @ py ''chevron'' @ [0x27] @ py '']'']"

text \<open>Strategy 1: a toggle control inside the first cell.\<close>

definition strategy_toggle :: "'s webdriver \<Rightarrow> bool \<Rightarrow> web_element \<Rightarrow> ('s, bool) prog" where
  "strategy_toggle D fast row_element =
     try_except
       (pbind (query (find_element D (Some row_element) CSS_SELECTOR (py ''td:first-child'')))
          (\<lambda>first_cell. click_toggle D fast first_cell toggle_selectors))
       no_such_element (pret False)"

text \<open>Strategy 2: the first cell.\<close>

definition strategy_first_cell :: "'s webdriver \<Rightarrow> bool \<Rightarrow> web_element \<Rightarrow> ('s, bool) prog" where
  "strategy_first_cell D fast row_element =
     try_except
       (pbind (query (find_element D (Some row_element) CSS_SELECTOR (py ''td:first-child'')))
          (\<lambda>first_cell.
             pbind (run_script D (Click first_cell)) (\<lambda>_.
             pbind (time_sleep D (if fast then 500 else 1000)) (\<lambda>_. pret True))))
       any_exception (pret False)"

text \<open>Strategy 3: the row itself.\<close>

definition strategy_row :: "'s webdriver \<Rightarrow> bool \<Rightarrow> web_element \<Rightarrow> ('s, bool) prog" where
  "strategy_row D fast row_element =
     pbind (run_script D (Click row_element)) (\<lambda>_.
     pbind (time_sleep D (if fast then 500 else 1000)) (\<lambda>_. pret True))"

text \<open>\<open>row_element.get_attribute('class') or ''\<close>\<close>

definition or_empty :: "pystr option \<Rightarrow> pystr" where
  "or_empty v = (case v of None \<Rightarrow> [] | Some s \<Rightarrow> s)"

definition expand_row :: "'s webdriver \<Rightarrow> bool \<Rightarrow> web_element \<Rightarrow> ('s, bool) prog" where
  "expand_row D fast row_element =
     try_except
       (pbind (query (get_attribute D row_element (py ''class''))) (\<lambda>cls.
          let classes = or_empty cls in
          if py_in (py ''opened'') classes then pret True
          else pbind (run_script D (ScrollIntoView row_element)) (\<lambda>_.
               pbind (time_sleep D (if fast then 200 else 400)) (\<lambda>_.
               pbind (strategy_toggle D fast row_element) (\<lambda>returned1.
                 if returned1 then pret True
                 else pbind (strategy_first_cell D fast row_element) (\<lambda>returned2.
                        if returned2 then pret True
                        else strategy_row D fast row_element))))))
       any_exception (pret False)"

section \<open>Paginator: \<open>get_total_pages\<close> and \<open>go_to_next_page\<close>\<close>

subsection \<open>The regular expression \<open>of\s+(\d+)\<close> and \<open>int\<close>\<close>

text \<open>
  A match at the start of a string: \<open>of\<close>, a non-empty run of white space, a non-empty
  run of digits.  The two runs are greedy, and no shorter run of white space can be
  followed by a digit.  The result is group 1.
\<close>

definition match_of_at :: "pystr \<Rightarrow> pystr option" where
  "match_of_at s =
     (if startswith s (py ''of'')
      then (let after_of = drop 2 s;
                spaces = takeWhile is_space after_of;
                digits = takeWhile is_digit (dropWhile is_space after_of)
            in if spaces \<noteq> [] \<and> digits \<noteq> [] then Some digits else None)
      else None)"

text \<open>\<open>re.search\<close>: the leftmost match.\<close>

fun re_search_of :: "pystr \<Rightarrow> pystr option" where
  "re_search_of [] = None"
| "re_search_of (c # cs) =
     (case match_of_at (c # cs) of
        Some digits \<Rightarrow> Some digits
      | None \<Rightarrow> re_search_of cs)"

text \<open>
  \<open>int(digits)\<close> on group 1 of the match, a non-empty run of decimal digits: the number
  that the digits write in base ten.  Python integers are unbounded, but CPython refuses
  to convert a string of more than 4300 digits (the default of
  \<open>sys.int_max_str_digits\<close>; leading zeros count) and raises \<open>ValueError\<close>.  \<open>int\<close> is
  not called on anything else here; on a string that is not a run of digits the model
  raises \<open>ValueError\<close> too.
\<close>

definition decimal :: "pystr \<Rightarrow> nat" where
  "decimal digits = foldl (\<lambda>acc c. 10 * acc + digit_value c) 0 digits"

definition py_int :: "pystr \<Rightarrow> exn + nat" where
  "py_int digits =
     (if digits = [] \<or> \<not> list_all is_digit digits then Inl ValueError
      else if length digits > 4300 then Inl ValueError
      else Inr (decimal digits))"

subsection \<open>\<open>get_total_pages\<close>\<close>

text \<open>The value returned for a total of \<open>total_items\<close> items (\<open>total\<close> in the source).\<close>

definition pages_of_total :: "nat \<Rightarrow> nat" where
  "pages_of_total total_items =
     (let items_per_page = 25
      in (total_items div items_per_page) + (if total_items mod items_per_page > 0 then 1 else 0))"

definition q :: pystr where
  "q = [0x27]"

text \<open>The first \<open>try\<close>: the pagination summary.  \<open>None\<close>: the function goes on.\<close>

definition pages_from_summary :: "'s webdriver \<Rightarrow> ('s, nat option) prog" where
  "pages_from_summary D =
     try_except
       (pbind (query (find_element D None CSS_SELECTOR
                 (py ''.pagination-info, [class*='' @ q @ py ''pagination'' @ q @ py ''], [class*=''
                  @ q @ py ''count'' @ q @ py '']''))) (\<lambda>el.
        pbind (query (element_text D el)) (\<lambda>pagination_text.
          case re_search_of pagination_text of
            Some digits \<Rightarrow>
              pbind (lift (py_int digits)) (\<lambda>total_items. pret (Some (pages_of_total total_items)))
          | None \<Rightarrow> pret None)))
       any_exception (pret None)"

text \<open>The second \<open>try\<close>: the page-number controls.\<close>

definition pages_from_buttons :: "'s webdriver \<Rightarrow> ('s, nat option) prog" where
  "pages_from_buttons D =
     try_except
       (pbind (query (find_elements D None CSS_SELECTOR
                 (py ''.page-number, [class*='' @ q @ py ''page'' @ q @ py '']''))) (\<lambda>page_buttons.
          pret (if page_buttons \<noteq> [] then Some (length page_buttons) else None)))
       any_exception (pret None)"

definition get_total_pages :: "'s webdriver \<Rightarrow> ('s, nat) prog" where
  "get_total_pages D =
     pbind (pages_from_summary D) (\<lambda>r1.
       case r1 of
         Some n \<Rightarrow> pret n
       | None \<Rightarrow>
           pbind (pages_from_buttons D) (\<lambda>r2.
             case r2 of
               Some n \<Rightarrow> pret n
             | None \<Rightarrow> pret 1))"

subsection \<open>\<open>go_to_next_page\<close>\<close>

text \<open>
  One probe for a candidate: \<open>find_element\<close>, and the element is appended when it is
  displayed; \<open>NoSuchElementException\<close> is passed over.
\<close>

definition probe ::
  "'s webdriver \<Rightarrow> locator \<Rightarrow> pystr \<Rightarrow> web_element list \<Rightarrow> ('s, web_element list) prog" where
  "probe D how what candidates =
     try_except
       (pbind (query (find_element D None how what)) (\<lambda>el.
        pbind (query (is_displayed D el)) (\<lambda>displayed.
          pret (if displayed then candidates @ [el] else candidates))))
       no_such_element (pret candidates)"

fun aria_label_candidates ::
  "'s webdriver \<Rightarrow> pystr list \<Rightarrow> web_element list \<Rightarrow> ('s, web_element list) prog" where
  "aria_label_candidates D [] candidates = pret candidates"
| "aria_label_candidates D (label # rest) candidates =
     pbind (probe D CSS_SELECTOR (py ''button[aria-label*='' @ q @ label @ q @ py '']'') candidates)
       (\<lambda>c1.
     pbind (probe D CSS_SELECTOR (py ''a[aria-label*='' @ q @ label @ q @ py '']'') c1)
       (\<lambda>c2. aria_label_candidates D rest c2))"

fun link_text_candidates ::
  "'s webdriver \<Rightarrow> pystr list \<Rightarrow> web_element list \<Rightarrow> ('s, web_element list) prog" where
  "link_text_candidates D [] candidates = pret candidates"
| "link_text_candidates D (text # rest) candidates =
     pbind (probe D LINK_TEXT text candidates) (\<lambda>c1.
     pbind (probe D XPATH (py ''//a[contains(., '' @ q @ text @ q @ py '')]'') c1)
       (\<lambda>c2. link_text_candidates D rest c2))"

text \<open>The condition under which an element found by a class name is a candidate.\<close>

definition looks_like_next :: "'s webdriver \<Rightarrow> web_element \<Rightarrow> ('s, bool) prog" where
  "looks_like_next D el =
     pbind (query (is_displayed D el)) (\<lambda>displayed.
       if \<not> displayed then pret False
       else pbind (query (get_attribute D el (py ''aria-label''))) (\<lambda>aria.
              if py_in (py ''next'') (py_lower (or_empty aria)) then pret True
              else pbind (query (element_text D el)) (\<lambda>txt.
                     if py_in (py ''next'') (py_lower txt) then pret True
                     else pbind (query (get_attribute D el (py ''class''))) (\<lambda>cls.
                            pret (or_empty cls \<noteq> [])))))"

text \<open>
  The \<open>try\<close> of the class-name loop encloses the loop over the elements found: an
  exception leaves the selector with the candidates appended so far.
\<close>

fun class_elements ::
  "'s webdriver \<Rightarrow> web_element list \<Rightarrow> web_element list \<Rightarrow> ('s, web_element list) prog" where
  "class_elements D [] candidates = pret candidates"
| "class_elements D (el # rest) candidates =
     pbind (outcome (looks_like_next D el)) (\<lambda>r.
       case r of
         Inl e \<Rightarrow> pret candidates
       | Inr keep \<Rightarrow> class_elements D rest (if keep then candidates @ [el] else candidates))"

fun class_name_candidates ::
  "'s webdriver \<Rightarrow> pystr list \<Rightarrow> web_element list \<Rightarrow> ('s, web_element list) prog" where
  "class_name_candidates D [] candidates = pret candidates"
| "class_name_candidates D (selector # rest) candidates =
     pbind (outcome (query (find_elements D None CSS_SELECTOR selector))) (\<lambda>r.
       case r of
         Inl e \<Rightarrow> class_name_candidates D rest candidates
       | Inr els \<Rightarrow>
           pbind (class_elements D els candidates) (\<lambda>c. class_name_candidates D rest c))"

definition next_candidates :: "'s webdriver \<Rightarrow> ('s, web_element list) prog" where
  "next_candidates D =
     pbind (aria_label_candidates D [py ''next'', py ''Next'', py ''next page'', py ''Go to next page''] [])
       (\<lambda>c1.
     pbind (link_text_candidates D
              [py ''Next'', py ''Next page'', [0xBB], [0x203A]] c1)
       (\<lambda>c2.
     pbind (class_name_candidates D
              [py ''.pagination-next'', py ''.next-page'',
               py ''[class*='' @ q @ py ''pagination'' @ q @ py ''] a[class*='' @ q @ py ''next'' @ q @ py '']'',
               py ''[class*='' @ q @ py ''next'' @ q @ py '']'', py ''button.next'', py ''a.next''] c2)
       (\<lambda>c3.
     probe D CSS_SELECTOR
       (py ''[data-page='' @ q @ py ''next'' @ q @ py ''], [data-action='' @ q @ py ''next'' @ q @ py '']'')
       c3)))"

text \<open>
  The loop over the candidates.  Its result says whether the function has returned
  \<open>True\<close> from inside the loop.
\<close>

fun click_candidates :: "'s webdriver \<Rightarrow> bool \<Rightarrow> web_element list \<Rightarrow> ('s, bool) prog" where
  "click_candidates D fast [] = pret False"
| "click_candidates D fast (next_btn # rest) =
     pbind (try_except
              (pbind (query (is_enabled D next_btn)) (\<lambda>enabled.
                 if \<not> enabled then pret False
                 else pbind (run_script D (ScrollIntoView next_btn)) (\<lambda>_.
                      pbind (time_sleep D 300) (\<lambda>_.
                      pbind (run_script D (Click next_btn)) (\<lambda>_.
                      pbind (time_sleep D (if fast then 1500 else 3000)) (\<lambda>_. pret True))))))
              any_exception (pret False))
       (\<lambda>returned. if returned then pret True else click_candidates D fast rest)"

definition go_to_next_page :: "'s webdriver \<Rightarrow> bool \<Rightarrow> ('s, bool) prog" where
  "go_to_next_page D fast =
     try_except
       (pbind (run_script D ScrollToBottom) (\<lambda>_.
        pbind (time_sleep D 500) (\<lambda>_.
        pbind (next_candidates D) (\<lambda>candidates. click_candidates D fast candidates))))
       any_exception (pret False)"

section \<open>Detail Parser on the live page: \<open>extract_row_data\<close>\<close>

definition parse_html_with_beautifulsoup :: "'s webdriver \<Rightarrow> bool \<Rightarrow> ('s, node option) prog" where
  "parse_html_with_beautifulsoup D BEAUTIFULSOUP_AVAILABLE =
     (if \<not> BEAUTIFULSOUP_AVAILABLE then pret None
      else try_except (pbind (query (page_soup D)) (\<lambda>soup. pret (Some soup)))
             any_exception (pret None))"

text \<open>\<open>soup.find('tr', id=...)\<close>\<close>

definition tr_with_id :: "pystr \<Rightarrow> node \<Rightarrow> bool" where
  "tr_with_id rid t = (is_tag (py ''tr'') t \<and> map_of (node_attrs t) (py ''id'') = Some rid)"

text \<open>
  The first \<open>try\<close>: the row is looked up in the parsed page by its identifier.  The
  result \<open>Some r\<close> means that the function returns \<open>r\<close>; \<open>None\<close> means that it goes on
  to the extraction through Selenium.
\<close>

definition soup_lookup ::
  "'s webdriver \<Rightarrow> bool \<Rightarrow> web_element \<Rightarrow> ('s, dei_record option option) prog" where
  "soup_lookup D BEAUTIFULSOUP_AVAILABLE row_element =
     try_except
       (pbind (query (get_attribute D row_element (py ''id''))) (\<lambda>rid.
          if or_empty rid = [] then pret None
          else pbind (parse_html_with_beautifulsoup D BEAUTIFULSOUP_AVAILABLE) (\<lambda>parsed.
                 case parsed of
                   None \<Rightarrow> pret None
                 | Some soup \<Rightarrow>
                     (case find_first (tr_with_id (or_empty rid)) soup of
                        None \<Rightarrow> pret None
                      | Some row_soup \<Rightarrow>
                          pret (Some (extract_row_data_from_soup BEAUTIFULSOUP_AVAILABLE row_soup
                                  (find_first (tr_with_id (py ''details_'' @ or_empty rid)) soup)))))))
       any_exception (pret None)"

text \<open>The loop over the lines of the text of the details cell, as Selenium renders it.\<close>

fun selenium_lines ::
  "pystr list \<Rightarrow> pystr \<Rightarrow> pystr \<Rightarrow> pystr list \<Rightarrow> pystr list \<Rightarrow> bool
   \<Rightarrow> pystr \<times> pystr \<times> pystr list \<times> pystr list" where
  "selenium_lines [] dtl status details_lines status_lines in_status =
     (dtl, status, details_lines, status_lines)"
| "selenium_lines (raw # rest) dtl status details_lines status_lines in_status =
     (let line = py_strip raw in
      if line = [] \<or> line = py ''Details''
      then selenium_lines rest dtl status details_lines status_lines in_status
      else if py_in (py ''status:'') (py_lower line)
      then selenium_lines rest dtl
             (if py_in (py '':'') line then py_strip (after_first 0x3A line) else status)
             details_lines status_lines True
      else if in_status
      then (if line \<noteq> [] \<and> \<not> startswith line [0x22]
            then selenium_lines rest dtl status details_lines (status_lines @ [line]) in_status
            else if startswith line [0x22] \<and> endswith line [0x22]
            then selenium_lines rest dtl (strip_quotes line) details_lines status_lines in_status
            else selenium_lines rest dtl status details_lines status_lines in_status)
      else (if startswith line [0x22] \<and> endswith line [0x22]
            then selenium_lines rest (strip_quotes line) status details_lines status_lines in_status
            else if line \<noteq> []
            then selenium_lines rest dtl status (details_lines @ [line]) status_lines in_status
            else selenium_lines rest dtl status details_lines status_lines in_status))"

definition selenium_details :: "pystr \<Rightarrow> pystr \<times> pystr" where
  "selenium_details details_text =
     (case selenium_lines (py_split 0x0A details_text) [] [] [] [] False of
        (dtl, status, details_lines, status_lines) \<Rightarrow>
          (if dtl = [] \<and> details_lines \<noteq> [] then py_join (py '' '') details_lines else dtl,
           if status = [] \<and> status_lines \<noteq> [] then py_join (py '' '') status_lines else status))"

text \<open>\<open>cells[i].text.strip() if len(cells) > i else ""\<close>\<close>

definition element_cell_text :: "'s webdriver \<Rightarrow> web_element list \<Rightarrow> nat \<Rightarrow> ('s, pystr) prog" where
  "element_cell_text D cells i =
     (if length cells > i
      then pbind (lift (py_index cells i)) (\<lambda>c.
           pbind (query (element_text D c)) (\<lambda>t. pret (py_strip t)))
      else pret [])"

text \<open>\<open>[link.get_attribute('href') for link in links if link.get_attribute('href')]\<close>\<close>

fun href_list :: "'s webdriver \<Rightarrow> web_element list \<Rightarrow> ('s, pystr list) prog" where
  "href_list D [] = pret []"
| "href_list D (link # rest) =
     pbind (query (get_attribute D link (py ''href''))) (\<lambda>h.
       if or_empty h \<noteq> []
       then pbind (query (get_attribute D link (py ''href''))) (\<lambda>v.
            pbind (href_list D rest) (\<lambda>vs. pret (or_empty v # vs)))
       else href_list D rest)"

definition element_links :: "'s webdriver \<Rightarrow> web_element list \<Rightarrow> ('s, pystr list) prog" where
  "element_links D cells =
     (if length cells > 3
      then pbind (lift (py_index cells 3)) (\<lambda>c.
           pbind (query (find_elements D (Some c) CSS_SELECTOR (py ''a''))) (\<lambda>links.
             href_list D links))
      else pret [])"

text \<open>The inner \<open>try\<close>: the details row of the live page; both values are empty when a
  lookup raises.\<close>

definition element_details :: "'s webdriver \<Rightarrow> pystr \<Rightarrow> ('s, pystr \<times> pystr) prog" where
  "element_details D rid =
     try_except
       (pbind (query (find_element D None ID (py ''details_'' @ rid))) (\<lambda>details_row.
        pbind (query (find_element D (Some details_row) CSS_SELECTOR (py ''td.details'')))
          (\<lambda>details_cell.
        pbind (query (element_text D details_cell)) (\<lambda>t.
          pret (selenium_details (py_strip t))))))
       any_exception (pret ([], []))"

text \<open>The second \<open>try\<close>: the extraction through Selenium.\<close>

definition selenium_extraction :: "'s webdriver \<Rightarrow> web_element \<Rightarrow> ('s, dei_record option) prog" where
  "selenium_extraction D row_element =
     try_except
       (pbind (query (get_attribute D row_element (py ''id''))) (\<lambda>rid.
          if or_empty rid = [] then pret None
          else pbind (query (find_elements D (Some row_element) CSS_SELECTOR (py ''td''))) (\<lambda>cells.
                 if length cells < 3 then pret None
                 else pbind (element_cell_text D cells 0) (\<lambda>inst.
                      pbind (element_cell_text D cells 1) (\<lambda>st.
                      pbind (element_cell_text D cells 2) (\<lambda>imp.
                      pbind (element_cell_text D cells 3) (\<lambda>src.
                      pbind (element_links D cells) (\<lambda>links.
                      pbind (element_details D (or_empty rid)) (\<lambda>ds.
                        pret (Some \<lparr>institution = inst, state = st, impacts = imp,
                                     source = src, source_links = links, details = fst ds,
                                     state_status = snd ds, row_id = or_empty rid\<rparr>))))))))))
       any_exception (pret None)"

definition extract_row_data ::
  "'s webdriver \<Rightarrow> bool \<Rightarrow> web_element \<Rightarrow> ('s, dei_record option) prog" where
  "extract_row_data D BEAUTIFULSOUP_AVAILABLE row_element =
     pbind (if BEAUTIFULSOUP_AVAILABLE
            then soup_lookup D BEAUTIFULSOUP_AVAILABLE row_element else pret None) (\<lambda>r.
       case r of
         Some result \<Rightarrow> pret result
       | None \<Rightarrow> selenium_extraction D row_element)"

section \<open>Session Orchestrator: \<open>scrape_all\<close>\<close>

subsection \<open>Waiting for the table\<close>

fun wait_for_selectors :: "'s webdriver \<Rightarrow> pystr list \<Rightarrow> ('s, bool) prog" where
  "wait_for_selectors D [] = pret False"
| "wait_for_selectors D (selector # rest) =
     pbind (try_except (pbind (wait_until_presence D selector) (\<lambda>_. pret True))
              is_timeout (pret False))
       (\<lambda>found. if found then pret True else wait_for_selectors D rest)"

definition wait_for_table :: "'s webdriver \<Rightarrow> ('s, bool) prog" where
  "wait_for_table D =
     wait_for_selectors D
       [py ''table'', py ''.table'', py ''[data-testid='' @ q @ py ''table'' @ q @ py '']'', py ''.data-table'',
        (py ''tbody'')]"

subsection \<open>One page\<close>

text \<open>
  The loop that expands the rows, over \<open>range(num_rows)\<close>: the rows are queried again
  for each index.  The result of one step says whether the loop was left by \<open>break\<close>.
\<close>

fun expand_rows_loop :: "'s webdriver \<Rightarrow> bool \<Rightarrow> nat list \<Rightarrow> ('s, unit) prog" where
  "expand_rows_loop D fast [] = pret ()"
| "expand_rows_loop D fast (i # rest) =
     pbind (try_except
              (pbind (query (find_elements D None CSS_SELECTOR (py ''tr.result''))) (\<lambda>rows.
                 if i \<ge> length rows then pret True
                 else pbind (lift (py_index rows i)) (\<lambda>row.
                      pbind (expand_row D fast row) (\<lambda>_.
                      pbind (time_sleep D (if fast then 100 else 300)) (\<lambda>_. pret False)))))
              any_exception (pret False))
       (\<lambda>broke. if broke then pret () else expand_rows_loop D fast rest)"

text \<open>\<open>class_=lambda x: x and 'result' in ...\<close>: the function is tried on each class of
  the tag and on the classes joined by spaces.\<close>

definition class_contains :: "pystr \<Rightarrow> node \<Rightarrow> bool" where
  "class_contains sub t =
     (case map_of (node_attrs t) (py ''class'') of
        None \<Rightarrow> False
      | Some v \<Rightarrow> list_ex (py_in sub) (split_ws [] v) \<or> py_in sub (py_join (py '' '') (split_ws [] v)))"

text \<open>\<open>s.isdigit()\<close>\<close>

definition py_isdigit :: "pystr \<Rightarrow> bool" where
  "py_isdigit s = (s \<noteq> [] \<and> list_all is_isdigit s)"

text \<open>The rows of the parsed page: the \<open>tr\<close> tags of class \<open>result\<close>, or else every
  \<open>tr\<close> with a numeric identifier and four cells or more.\<close>

definition result_rows :: "node \<Rightarrow> node list" where
  "result_rows soup =
     (let rows = find_all (\<lambda>t. is_tag (py ''tr'') t \<and> class_contains (py ''result'') t) soup
      in if rows = []
         then filter (\<lambda>tr. length (find_all (is_tag (py ''td'')) tr) \<ge> 4 \<and> py_isdigit (tag_get tr (py ''id'') []))
                (find_all (\<lambda>t. is_tag (py ''tr'') t \<and> has_attr (py ''id'') t) soup)
         else rows)"

text \<open>What one row of the parsed page appends to \<open>all_data\<close>.\<close>

definition soup_row_records :: "node \<Rightarrow> node \<Rightarrow> dei_record list" where
  "soup_row_records soup row_soup =
     (let rid = tag_get row_soup (py ''id'') [] in
      if rid = [] then []
      else (case extract_row_data_from_soup True row_soup
                   (find_first (tr_with_id (py ''details_'' @ rid)) soup) of
              None \<Rightarrow> []
            | Some row_data \<Rightarrow> [row_data]))"

text \<open>
  The first path of a page: expand the rows, parse the page once, extract every row.
  The result is \<open>page_done\<close> with \<open>all_data\<close>.
\<close>

definition scrape_page_soup ::
  "'s webdriver \<Rightarrow> bool \<Rightarrow> dei_record list \<Rightarrow> ('s, bool \<times> dei_record list) prog" where
  "scrape_page_soup D fast all_data =
     pbind (outcome
              (pbind (wait_until_presence D (py ''tbody, table'')) (\<lambda>_.
               pbind (query (find_elements D None CSS_SELECTOR (py ''tr.result''))) (\<lambda>data_rows.
               pbind (expand_rows_loop D fast [0..<length data_rows]) (\<lambda>_.
               pbind (time_sleep D (if fast then 500 else 2000)) (\<lambda>_.
               pbind (parse_html_with_beautifulsoup D True) (\<lambda>parsed.
                 case parsed of
                   None \<Rightarrow> pret (False, all_data)
                 | Some soup \<Rightarrow>
                     pret (True, all_data @ concat (map (soup_row_records soup) (result_rows soup))))))))))
       (\<lambda>r. case r of Inl e \<Rightarrow> pret (False, all_data) | Inr res \<Rightarrow> pret res)"

text \<open>What one row of the live page appends when the parsed page is at hand.\<close>

definition soup_records_by_id :: "node \<Rightarrow> pystr \<Rightarrow> dei_record list" where
  "soup_records_by_id soup rid =
     (if rid = [] then []
      else (case find_first (tr_with_id rid) soup of
              None \<Rightarrow> []
            | Some row_soup \<Rightarrow>
                (case extract_row_data_from_soup True row_soup
                        (find_first (tr_with_id (py ''details_'' @ rid)) soup) of
                   None \<Rightarrow> []
                 | Some row_data \<Rightarrow> [row_data])))"

fun rows_from_soup ::
  "'s webdriver \<Rightarrow> node \<Rightarrow> web_element list \<Rightarrow> dei_record list \<Rightarrow> ('s, dei_record list) prog" where
  "rows_from_soup D soup [] all_data = pret all_data"
| "rows_from_soup D soup (row # rest) all_data =
     pbind (outcome (query (get_attribute D row (py ''id'')))) (\<lambda>r.
       case r of
         Inl e \<Rightarrow> rows_from_soup D soup rest all_data
       | Inr rid \<Rightarrow> rows_from_soup D soup rest (all_data @ soup_records_by_id soup (or_empty rid)))"

fun rows_per_element ::
  "'s webdriver \<Rightarrow> bool \<Rightarrow> bool \<Rightarrow> web_element list \<Rightarrow> dei_record list
   \<Rightarrow> ('s, dei_record list) prog" where
  "rows_per_element D BEAUTIFULSOUP_AVAILABLE fast [] all_data = pret all_data"
| "rows_per_element D BEAUTIFULSOUP_AVAILABLE fast (row # rest) all_data =
     pbind (outcome
              (pbind (extract_row_data D BEAUTIFULSOUP_AVAILABLE row) (\<lambda>row_data.
               pbind (time_sleep D (if fast then 100 else 300)) (\<lambda>_. pret row_data)))) (\<lambda>r.
       case r of
         Inl e \<Rightarrow> rows_per_element D BEAUTIFULSOUP_AVAILABLE fast rest all_data
       | Inr None \<Rightarrow> rows_per_element D BEAUTIFULSOUP_AVAILABLE fast rest all_data
       | Inr (Some row_data) \<Rightarrow>
           rows_per_element D BEAUTIFULSOUP_AVAILABLE fast rest (all_data @ [row_data]))"

text \<open>The second path of a page, taken when the first has not set \<open>page_done\<close>.\<close>

definition scrape_page_selenium ::
  "'s webdriver \<Rightarrow> bool \<Rightarrow> bool \<Rightarrow> bool \<Rightarrow> dei_record list \<Rightarrow> ('s, dei_record list) prog" where
  "scrape_page_selenium D BEAUTIFULSOUP_AVAILABLE fast expand_rows all_data =
     pbind (outcome
              (pbind (wait_until_presence D (py ''tbody, table'')) (\<lambda>_.
               pbind (query (find_elements D None CSS_SELECTOR (py ''tr.result''))) (\<lambda>data_rows.
               pbind (if expand_rows
                      then pbind (expand_rows_loop D fast [0..<length data_rows]) (\<lambda>_.
                             time_sleep D (if fast then 800 else 1500))
                      else pret ()) (\<lambda>_.
                 if BEAUTIFULSOUP_AVAILABLE
                 then pbind (parse_html_with_beautifulsoup D BEAUTIFULSOUP_AVAILABLE) (\<lambda>parsed.
                        case parsed of
                          Some soup \<Rightarrow> rows_from_soup D soup data_rows all_data
                        | None \<Rightarrow>
                            rows_per_element D BEAUTIFULSOUP_AVAILABLE fast data_rows all_data)
                 else rows_per_element D BEAUTIFULSOUP_AVAILABLE fast data_rows all_data)))))
       (\<lambda>r. case r of Inl e \<Rightarrow> pret all_data | Inr res \<Rightarrow> pret res)"

definition scrape_page ::
  "'s webdriver \<Rightarrow> bool \<Rightarrow> bool \<Rightarrow> bool \<Rightarrow> dei_record list \<Rightarrow> ('s, dei_record list) prog" where
  "scrape_page D BEAUTIFULSOUP_AVAILABLE fast expand_rows all_data =
     pbind (if BEAUTIFULSOUP_AVAILABLE \<and> expand_rows
            then scrape_page_soup D fast all_data else pret (False, all_data)) (\<lambda>r.
       if fst r then pret (snd r)
       else scrape_page_selenium D BEAUTIFULSOUP_AVAILABLE fast expand_rows (snd r))"

subsection \<open>The page loop\<close>

text \<open>
  The \<open>while True\<close> loop, from the state in which \<open>page_num\<close> is the number of the page
  to scrape.  It returns \<open>all_data\<close> and the number of the last page scraped (the value
  of \<open>page_num\<close> in the last \<open>Scraping page ...\<close> line of the log), that is, the number
  of pages processed when the loop starts at 1.
\<close>

function scrape_loop ::
  "'s webdriver \<Rightarrow> bool \<Rightarrow> bool \<Rightarrow> bool \<Rightarrow> int option \<Rightarrow> nat \<Rightarrow> dei_record list
   \<Rightarrow> 's run \<Rightarrow> (exn + dei_record list \<times> nat) \<times> 's run" where
  "scrape_loop D BEAUTIFULSOUP_AVAILABLE fast expand_rows max_pages page_num all_data st =
     (case scrape_page D BEAUTIFULSOUP_AVAILABLE fast expand_rows all_data st of
        (Inl e, st1) \<Rightarrow> (Inl e, st1)
      | (Inr data1, st1) \<Rightarrow>
          (case go_to_next_page D fast st1 of
             (Inl e, st2) \<Rightarrow> (Inl e, st2)
           | (Inr advanced, st2) \<Rightarrow>
               if \<not> advanced then (Inr (data1, page_num), st2)
               else if (case max_pages of None \<Rightarrow> False | Some m \<Rightarrow> int (page_num + 1) > m)
               then (Inr (data1, page_num), st2)
               else if page_num + 1 > 20 then (Inr (data1, page_num), st2)
               else scrape_loop D BEAUTIFULSOUP_AVAILABLE fast expand_rows max_pages
                      (page_num + 1) data1 st2))"
  by pat_completeness auto
termination
  by (relation "measure (\<lambda>(D, bs, fast, expand_rows, max_pages, page_num, all_data, st). 21 - page_num)")
     auto

text \<open>
  \<open>total_pages\<close> is used for a line of the log only; the loop does not read it.
\<close>

definition scrape_all ::
  "'s webdriver \<Rightarrow> bool \<Rightarrow> bool \<Rightarrow> bool \<Rightarrow> int option \<Rightarrow> ('s, dei_record list) prog" where
  "scrape_all D BEAUTIFULSOUP_AVAILABLE fast expand_rows max_pages =
     pbind (wait_for_table D) (\<lambda>_.
     pbind (time_sleep D (if fast then 1000 else 2000)) (\<lambda>_.
     pbind (get_total_pages D) (\<lambda>total_pages.
     pbind (scrape_loop D BEAUTIFULSOUP_AVAILABLE fast expand_rows max_pages 1 [])
       (\<lambda>r. pret (fst r)))))"

section \<open>Notions used in the statements\<close>

text \<open>
  The \<open>href\<close> values of the anchors below a node, read off the tree in document order:
  each child contributes its own \<open>href\<close> (when it is an anchor that has one) and then
  those of the anchors below it.  Nothing is reordered and nothing is left out.
\<close>

fun own_href :: "node \<Rightarrow> pystr list" where
  "own_href (NavigableString s) = []"
| "own_href (Tag n attrs cs) =
     (if n = py ''a'' then (case map_of attrs (py ''href'') of None \<Rightarrow> [] | Some v \<Rightarrow> [v]) else [])"

fun anchor_hrefs :: "node \<Rightarrow> pystr list" where
  "anchor_hrefs (NavigableString s) = []"
| "anchor_hrefs (Tag n attrs cs) = concat (map (\<lambda>c. own_href c @ anchor_hrefs c) cs)"


text \<open>
  The elements that \<open>expand_row\<close> is meant to click for a row: the row itself, its first
  cell (what \<open>td:first-child\<close> locates below the row), or a toggle control, that is, a
  displayed element that one of the selectors of strategy 1 locates below the first
  cell.
\<close>

definition first_cell_of :: "'s webdriver \<Rightarrow> web_element \<Rightarrow> web_element \<Rightarrow> bool" where
  "first_cell_of D row_element el =
     (\<exists>s. find_element D (Some row_element) CSS_SELECTOR (py ''td:first-child'') s = Inr el)"

definition toggle_of :: "'s webdriver \<Rightarrow> web_element \<Rightarrow> web_element \<Rightarrow> bool" where
  "toggle_of D row_element el =
     (\<exists>first_cell selector s.
        first_cell_of D row_element first_cell \<and> selector \<in> set toggle_selectors
        \<and> find_element D (Some first_cell) CSS_SELECTOR selector s = Inr el
        \<and> is_displayed D el s = Inr True)"

definition expand_target :: "'s webdriver \<Rightarrow> web_element \<Rightarrow> web_element \<Rightarrow> bool" where
  "expand_target D row_element el =
     (el = row_element \<or> first_cell_of D row_element el \<or> toggle_of D row_element el)"

text \<open>
  The attempts on the candidates of \<open>go_to_next_page\<close>, read off the browser alone, from
  the state \<open>s\<close> in which the first attempt starts.  A candidate that is not enabled, or
  whose \<open>is_enabled\<close> raises, is passed over.  An attempt on an enabled candidate
  scrolls it into view, waits 0.3 s and clicks it; it fails when one of the two scripts
  raises, and the next candidate is tried in the state that the failed attempt has left.
  The result is the first candidate whose attempt succeeds, if there is one.
\<close>

fun first_success :: "'s webdriver \<Rightarrow> web_element list \<Rightarrow> 's \<Rightarrow> web_element option" where
  "first_success D [] s = None"
| "first_success D (c # cs) s =
     (if is_enabled D c s \<noteq> Inr True then first_success D cs s
      else (case execute_script D (ScrollIntoView c) s of
              (Some e, s1) \<Rightarrow> first_success D cs s1
            | (None, s1) \<Rightarrow>
                (case execute_script D (Click c) (sleep D 300 s1) of
                   (Some e, s2) \<Rightarrow> first_success D cs s2
                 | (None, s2) \<Rightarrow> Some c)))"

text \<open>A program that never raises.\<close>

definition returns :: "('s, 'a) prog \<Rightarrow> bool" where
  "returns m = (\<forall>st. \<exists>x st'. m st = (Inr x, st'))"

text \<open>A program that performs no click.\<close>

definition quiet :: "('s, 'a) prog \<Rightarrow> bool" where
  "quiet m = (\<forall>st r st'. m st = (r, st') \<longrightarrow> clicks st' = clicks st)"


text \<open>The row that the first \<open>try\<close> of \<open>extract_row_data\<close> finds in the parsed page for a
  row of the live page, if any.\<close>

definition soup_view :: "'s webdriver \<Rightarrow> web_element \<Rightarrow> 's \<Rightarrow> node option" where
  "soup_view D row_element s =
     (case get_attribute D row_element (py ''id'') s of
        Inl e \<Rightarrow> None
      | Inr rid \<Rightarrow>
          (case page_soup D s of
             Inl e \<Rightarrow> None
           | Inr soup \<Rightarrow> find_first (tr_with_id (or_empty rid)) soup))"

text \<open>A read of the page that does not raise.\<close>

definition succeeds :: "exn + 'a \<Rightarrow> bool" where
  "succeeds r = (case r of Inl e \<Rightarrow> False | Inr x \<Rightarrow> True)"

text \<open>The number of pages processed by a run of the page loop that started at page 1.\<close>

definition pages_processed :: "(exn + dei_record list \<times> nat) \<times> 's run \<Rightarrow> nat option" where
  "pages_processed res = (case fst res of Inl e \<Rightarrow> None | Inr r \<Rightarrow> Some (snd r))"

section \<open>A sample page\<close>

text \<open>
  Rows used to run the definitions: row 228 has four cells, three links of which two are
  equal, and a details row; row 229 has exactly three cells; row 230 has two cells.
  \<open>detail_page\<close> is a parsed page with row 228 and its details row; \<open>demo_page\<close> is a
  parsed page with the rows 229 and 230.
\<close>

definition text_cell :: "pystr \<Rightarrow> node" where
  "text_cell s = Tag (py ''td'') [] [NavigableString s]"

definition demo_row :: node where
  "demo_row =
     Tag (py ''tr'') [(py ''class'', py ''result''), (py ''id'', py ''228'')]
       [text_cell (py '' Univ A ''), text_cell (py ''TX''), text_cell (py ''Closed office''),
        Tag (py ''td'') []
          [Tag (py ''a'') [(py ''href'', py ''http://x/1'')] [NavigableString (py ''one'')],
           NavigableString (py '', ''),
           Tag (py ''a'') [] [NavigableString (py ''no link'')],
           Tag (py ''span'') [] [Tag (py ''a'') [(py ''href'', py ''http://x/2'')] [NavigableString (py ''two'')]],
           Tag (py ''a'') [(py ''href'', py ''http://x/1'')] [NavigableString (py ''again'')]]]"

definition demo_details_cell :: node where
  "demo_details_cell =
     Tag (py ''td'') [(py ''class'', py ''details'')]
       [Tag (py ''b'') [] [NavigableString (py ''Details'')], Tag (py ''br'') [] [],
        NavigableString (py ''First.''), Tag (py ''br'') [] [],
        NavigableString ([0x22] @ py ''Quoted'' @ [0x22])]"

definition demo_details :: node where
  "demo_details = Tag (py ''tr'') [(py ''id'', py ''details_228'')] [demo_details_cell]"

definition demo_row3 :: node where
  "demo_row3 =
     Tag (py ''tr'') [(py ''class'', py ''result''), (py ''id'', py ''229'')]
       [text_cell (py ''Univ B''), text_cell (py ''FL''), text_cell (py ''Renamed office'')]"

definition short_row :: node where
  "short_row =
     Tag (py ''tr'') [(py ''class'', py ''result opened''), (py ''id'', py ''230'')]
       [text_cell (py ''Univ C''), text_cell (py ''OH'')]"

definition detail_page :: node where
  "detail_page =
     Tag (py ''[document]'') [] [Tag (py ''table'') [] [Tag (py ''tbody'') [] [demo_row, demo_details]]]"

definition demo_page :: node where
  "demo_page =
     Tag (py ''[document]'') [] [Tag (py ''table'') [] [Tag (py ''tbody'') [] [demo_row3, short_row]]]"

definition summary_300 :: pystr where
  "summary_300 = py ''Showing 1'' @ [0x2013] @ py ''25 of 300''"

text \<open>
  A browser showing \<open>demo_page\<close>.  Element 1 is row 229 with the cells 11, 12 and
  13; element 2 is row 230 with the cells 21 and 22, and it is already opened; element
  50 is the pagination summary; element 60 is a displayed next button, which is
  disabled; element 70 is a toggle button in the first cell of row 229.  The state
  counts the clicks on the next button.
\<close>

definition demo_driver :: "nat webdriver" where
  "demo_driver =
     \<lparr>find_element = (\<lambda>scope how what s.
          if scope = None \<and> what = py ''button[aria-label*='' @ q @ py ''next'' @ q @ py '']'' then Inr 60
          else if scope = None \<and> take 16 what = py ''.pagination-info'' then Inr 50
          else if scope = Some 1 \<and> what = py ''td:first-child'' then Inr 11
          else if scope = Some 11 \<and> what = py ''button'' then Inr 70
          else Inl NoSuchElementException),
      find_elements = (\<lambda>scope how what s.
          if scope = None \<and> what = py ''tr.result'' then Inr [1, 2]
          else if scope = Some 1 \<and> what = py ''td'' then Inr [11, 12, 13]
          else if scope = Some 2 \<and> what = py ''td'' then Inr [21, 22]
          else Inr []),
      get_attribute = (\<lambda>el name s.
          if el = 1 \<and> name = py ''id'' then Inr (Some (py ''229''))
          else if el = 2 \<and> name = py ''id'' then Inr (Some (py ''230''))
          else if el = 1 \<and> name = py ''class'' then Inr (Some (py ''result''))
          else if el = 2 \<and> name = py ''class'' then Inr (Some (py ''result opened''))
          else Inr None),
      element_text = (\<lambda>el s.
          if el = 50 then Inr summary_300
          else if el = 11 then Inr (py ''Univ B'')
          else if el = 12 then Inr (py '' FL '')
          else if el = 13 then Inr (py ''Renamed office'')
          else Inr []),
      is_displayed = (\<lambda>el s. Inr True),
      is_enabled = (\<lambda>el s. Inr (el \<noteq> 60)),
      page_soup = (\<lambda>s. Inr demo_page),
      execute_script = (\<lambda>sc s. (None, if sc = Click 60 then s + 1 else s)),
      wait_presence = (\<lambda>selector s. (Inr (), s)),
      sleep = (\<lambda>ms s. s)\<rparr>"

text \<open>The same browser with the next button always enabled: every advance succeeds.\<close>

definition endless_driver :: "nat webdriver" where
  "endless_driver = demo_driver\<lparr>is_enabled := (\<lambda>el s. Inr True)\<rparr>"

text \<open>The browser with the next button enabled, in which every click raises.\<close>

definition stuck_driver :: "nat webdriver" where
  "stuck_driver =
     endless_driver\<lparr>execute_script :=
       (\<lambda>sc s. (case sc of Click el \<Rightarrow> Some WebDriverException | _ \<Rightarrow> None, s))\<rparr>"

text \<open>
  The browser with the next button enabled, in which every search by XPath raises an
  error other than \<open>NoSuchElementException\<close> (an invalid selector, for one).
\<close>

definition flaky_driver :: "nat webdriver" where
  "flaky_driver =
     endless_driver\<lparr>find_element :=
       (\<lambda>scope how what s.
          if how = XPATH then Inl WebDriverException
          else find_element endless_driver scope how what s)\<rparr>"

text \<open>A summary whose number has 4301 digits: \<open>of 1000...0\<close>, with 4300 zeros; and the
  browser showing it.  There are no page-number controls.\<close>

definition big_digits :: pystr where
  "big_digits = 0x31 # replicate 4300 0x30"

definition big_summary :: pystr where
  "big_summary = py ''Showing 1-25 of '' @ big_digits"

definition big_driver :: "nat webdriver" where
  "big_driver = demo_driver\<lparr>element_text := (\<lambda>el s. Inr big_summary)\<rparr>"

section \<open>Verification\<close>

subsection \<open>String literals\<close>

lemma inj_of_char_nat: "inj (of_char :: char \<Rightarrow> nat)"
  by (rule injI) simp

lemma py_eq_iff [simp]: "py a = py b \<longleftrightarrow> a = b"
  by (simp add: py_def inj_map_eq_map inj_of_char_nat)

lemma py_Nil [simp]: "py [] = []"
  by (simp add: py_def)

lemma py_eq_Nil [simp]: "py a = [] \<longleftrightarrow> a = []" "[] = py a \<longleftrightarrow> a = []"
  by (auto simp: py_def)

lemma py_append [simp]: "py a @ py b = py (a @ b)"
  by (simp add: py_def)

subsection \<open>The parse tree and the main cells\<close>

lemma py_index_in_range: "i < length xs \<Longrightarrow> py_index xs i = Inr (xs ! i)"
  by (simp add: py_index_def)

lemma emap_tag_item:
  "list_all (has_attr key) xs \<Longrightarrow> emap (\<lambda>link. tag_item link key) xs = Inr (map (\<lambda>link. tag_get link key []) xs)"
  by (induction xs) (auto simp: ebind_def tag_item_def tag_get_def has_attr_def split: option.splits)

lemma emap_hrefs:
  "emap (\<lambda>link. tag_item link (py ''href'')) (find_all (\<lambda>t. is_tag (py ''a'') t \<and> has_attr (py ''href'') t) c)
   = Inr (map (\<lambda>link. tag_get link (py ''href'') []) (find_all (\<lambda>t. is_tag (py ''a'') t \<and> has_attr (py ''href'') t) c))"
  by (rule emap_tag_item) (simp add: find_all_def list_all_iff)

lemma own_href_filter:
  "map (\<lambda>link. tag_get link (py ''href'') []) (filter (\<lambda>t. is_tag (py ''a'') t \<and> has_attr (py ''href'') t) [c]) = own_href c"
  by (cases c) (auto simp: is_tag_def has_attr_def tag_get_def split: option.splits)

lemma filter_descendants_concat:
  "map g (filter P (concat (map (\<lambda>c. c # desc c) cs)))
   = concat (map (\<lambda>c. map g (filter P [c]) @ map g (filter P (desc c))) cs)"
  by (induction cs) auto

lemma hrefs_document_order:
  "map (\<lambda>link. tag_get link (py ''href'') []) (find_all (\<lambda>t. is_tag (py ''a'') t \<and> has_attr (py ''href'') t) c)
   = anchor_hrefs c"
proof (induction c)
  case (NavigableString s)
  show ?case by (simp add: find_all_def)
next
  case (Tag n attrs cs)
  have "\<And>c. c \<in> set cs \<Longrightarrow>
          map (\<lambda>link. tag_get link (py ''href'') []) (filter (\<lambda>t. is_tag (py ''a'') t \<and> has_attr (py ''href'') t) [c])
          @ map (\<lambda>link. tag_get link (py ''href'') [])
              (filter (\<lambda>t. is_tag (py ''a'') t \<and> has_attr (py ''href'') t) (descendants c))
          = own_href c @ anchor_hrefs c"
    using Tag.IH by (simp only: own_href_filter find_all_def)
  then have "concat (map (\<lambda>c. map (\<lambda>link. tag_get link (py ''href'') [])
                              (filter (\<lambda>t. is_tag (py ''a'') t \<and> has_attr (py ''href'') t) [c])
                            @ map (\<lambda>link. tag_get link (py ''href'') [])
                              (filter (\<lambda>t. is_tag (py ''a'') t \<and> has_attr (py ''href'') t) (descendants c))) cs)
             = concat (map (\<lambda>c. own_href c @ anchor_hrefs c) cs)"
    by (intro arg_cong[where f = concat] map_cong refl)
  then show ?case
    by (simp only: find_all_def descendants.simps anchor_hrefs.simps filter_descendants_concat)
qed

lemma cell_text_in_range:
  "i < length cells \<Longrightarrow> cell_text cells i = Inr (get_text [] True (cells ! i))"
  by (simp add: cell_text_def py_index_def ebind_def)

lemma cell_text_out_of_range: "\<not> i < length cells \<Longrightarrow> cell_text cells i = Inr []"
  by (simp add: cell_text_def)

lemma cell_links_in_range:
  "3 < length cells \<Longrightarrow> cell_links cells = Inr (anchor_hrefs (cells ! 3))"
  by (simp add: cell_links_def py_index_def ebind_def emap_hrefs hrefs_document_order)

lemma cell_links_out_of_range: "\<not> 3 < length cells \<Longrightarrow> cell_links cells = Inr []"
  by (simp add: cell_links_def)

lemma row_fields_qualifying:
  assumes "tag_get row_soup (py ''id'') [] \<noteq> []"
    and "3 \<le> length (find_all (is_tag (py ''td'')) row_soup)"
  shows "row_fields row_soup details_row_soup =
     Inr (Some \<lparr>institution = get_text [] True (find_all (is_tag (py ''td'')) row_soup ! 0),
                state = get_text [] True (find_all (is_tag (py ''td'')) row_soup ! 1),
                impacts = get_text [] True (find_all (is_tag (py ''td'')) row_soup ! 2),
                source = (if length (find_all (is_tag (py ''td'')) row_soup) > 3
                          then get_text [] True (find_all (is_tag (py ''td'')) row_soup ! 3) else []),
                source_links = (if length (find_all (is_tag (py ''td'')) row_soup) > 3
                          then anchor_hrefs (find_all (is_tag (py ''td'')) row_soup ! 3) else []),
                details = fst (extract_details details_row_soup),
                state_status = snd (extract_details details_row_soup),
                row_id = tag_get row_soup (py ''id'') []\<rparr>)"
proof -
  let ?cells = "find_all (is_tag (py ''td'')) row_soup"
  have c0: "cell_text ?cells 0 = Inr (get_text [] True (?cells ! 0))"
    and c1: "cell_text ?cells 1 = Inr (get_text [] True (?cells ! 1))"
    and c2: "cell_text ?cells 2 = Inr (get_text [] True (?cells ! 2))"
    using assms(2) by (intro cell_text_in_range; linarith)+
  have c3: "cell_text ?cells 3 = Inr (if length ?cells > 3 then get_text [] True (?cells ! 3) else [])"
    by (simp add: cell_text_in_range cell_text_out_of_range)
  have l: "cell_links ?cells = Inr (if length ?cells > 3 then anchor_hrefs (?cells ! 3) else [])"
    by (simp add: cell_links_in_range cell_links_out_of_range)
  have n: "\<not> length ?cells < 3" using assms(2) by simp
  show ?thesis
    unfolding row_fields_def Let_def
    by (simp only: assms(1) n if_False c0 c1 c2 c3 l ebind_def sum.case prod.case_eq_if)
qed

subsection \<open>Programs that never raise\<close>

lemma returns_pret: "returns (pret x)"
  by (simp add: returns_def pret_def)

lemma returns_outcome: "returns (outcome m)"
  by (auto simp: returns_def outcome_def split: prod.splits)

lemma returns_pbind: "returns m \<Longrightarrow> (\<And>x. returns (f x)) \<Longrightarrow> returns (pbind m f)"
proof -
  assume m: "returns m" and f: "\<And>x. returns (f x)"
  show "returns (pbind m f)"
    unfolding returns_def
  proof
    fix st
    obtain x st1 where "m st = (Inr x, st1)" using m unfolding returns_def by blast
    moreover obtain y st2 where "f x st1 = (Inr y, st2)" using f unfolding returns_def by blast
    ultimately show "\<exists>y st'. pbind m f st = (Inr y, st')" by (simp add: pbind_def)
  qed
qed

lemma returns_try_any: "returns h \<Longrightarrow> returns (try_except m any_exception h)"
  unfolding returns_def try_except_def any_exception_def
  by (auto split: prod.splits sum.splits)

lemma returns_time_sleep: "returns (time_sleep D n)"
  by (simp add: returns_def time_sleep_def)

subsection \<open>Programs that perform no click\<close>



lemma quiet_lift: "quiet (lift r)"
  by (auto simp: quiet_def lift_def)


lemma quiet_wait: "quiet (wait_until_presence D sel)"
  by (auto simp: quiet_def wait_until_presence_def clicks_def split: prod.splits)





subsection \<open>Programs that return \<open>True\<close> exactly after a click\<close>







subsection \<open>The strategies of \<open>expand_row\<close>\<close>









subsection \<open>The candidates of \<open>go_to_next_page\<close>\<close>










lemma go_to_next_page_returns: "returns (go_to_next_page D fast)"
  unfolding go_to_next_page_def by (intro returns_try_any returns_pret)

lemma click_candidates_skip:
  "is_enabled D next_btn (fst st) = Inr False \<Longrightarrow>
   click_candidates D fast (next_btn # rest) st = click_candidates D fast rest st"
  by (simp add: pbind_def try_except_def query_def pret_def)

lemma click_candidates_none_enabled:
  "list_all (\<lambda>c. is_enabled D c (fst st) = Inr False) candidates \<Longrightarrow>
   click_candidates D fast candidates st = (Inr False, st)"
proof (induction candidates)
  case Nil
  show ?case by (simp add: pret_def)
next
  case (Cons c cs)
  then show ?case using click_candidates_skip[of D c st fast cs] by simp
qed

subsection \<open>A page never raises\<close>

lemma scrape_page_soup_returns: "returns (scrape_page_soup D fast all_data)"
  unfolding scrape_page_soup_def
  by (intro returns_pbind returns_outcome) (auto split: sum.splits intro: returns_pret)

lemma scrape_page_selenium_returns:
  "returns (scrape_page_selenium D bs fast expand_rows all_data)"
  unfolding scrape_page_selenium_def
  by (intro returns_pbind returns_outcome) (auto split: sum.splits intro: returns_pret)

lemma scrape_page_returns: "returns (scrape_page D bs fast expand_rows all_data)"
  unfolding scrape_page_def
  by (intro returns_pbind)
     (auto intro: returns_pret scrape_page_soup_returns scrape_page_selenium_returns)

subsection \<open>The page loop\<close>

lemma scrape_loop_bounds:
  "1 \<le> page_num \<Longrightarrow> page_num \<le> 20 \<Longrightarrow>
   \<exists>data n st'. scrape_loop D bs fast expand_rows max_pages page_num all_data st = (Inr (data, n), st')
      \<and> page_num \<le> n \<and> n \<le> 20
      \<and> (case max_pages of None \<Rightarrow> True | Some m \<Rightarrow> int n \<le> max (int page_num) m)"
proof (induction D bs fast expand_rows max_pages page_num all_data st rule: scrape_loop.induct)
  case (1 D bs fast expand_rows max_pages page_num all_data st)
  obtain data1 st1 where sp: "scrape_page D bs fast expand_rows all_data st = (Inr data1, st1)"
    using scrape_page_returns[of D bs fast expand_rows all_data] unfolding returns_def by blast
  obtain advanced st2 where gn: "go_to_next_page D fast st1 = (Inr advanced, st2)"
    using go_to_next_page_returns[of D fast] unfolding returns_def by blast
  show ?case
  proof (cases "\<not> advanced \<or> (case max_pages of None \<Rightarrow> False | Some m \<Rightarrow> int (page_num + 1) > m)
                 \<or> page_num + 1 > 20")
    case True
    then have "scrape_loop D bs fast expand_rows max_pages page_num all_data st
               = (Inr (data1, page_num), st2)"
      using sp gn by (subst scrape_loop.simps) auto
    then show ?thesis using "1.prems" by (auto split: option.splits)
  next
    case False
    then have adv: "advanced" and cap: "\<not> (case max_pages of None \<Rightarrow> False | Some m \<Rightarrow> int (page_num + 1) > m)"
      and hard: "\<not> page_num + 1 > 20" by auto
    have eq: "scrape_loop D bs fast expand_rows max_pages page_num all_data st
              = scrape_loop D bs fast expand_rows max_pages (page_num + 1) data1 st2"
      using sp gn adv cap hard by (subst scrape_loop.simps) simp
    have "\<exists>data n st'. scrape_loop D bs fast expand_rows max_pages (page_num + 1) data1 st2
              = (Inr (data, n), st') \<and> page_num + 1 \<le> n \<and> n \<le> 20
              \<and> (case max_pages of None \<Rightarrow> True | Some m \<Rightarrow> int n \<le> max (int (page_num + 1)) m)"
      using "1.IH"[OF sp[symmetric] refl gn[symmetric] refl] adv cap hard "1.prems" by simp
    then show ?thesis using eq cap by (auto split: option.splits)
  qed
qed

subsection \<open>The Detail Parser on a parsed row\<close>

lemma extract_row_data_from_soup_qualifying:
  assumes "BEAUTIFULSOUP_AVAILABLE"
    and "tag_get row_soup (py ''id'') [] \<noteq> []"
    and "3 \<le> length (find_all (is_tag (py ''td'')) row_soup)"
  shows "extract_row_data_from_soup BEAUTIFULSOUP_AVAILABLE row_soup details_row_soup =
     Some \<lparr>institution = get_text [] True (find_all (is_tag (py ''td'')) row_soup ! 0),
            state = get_text [] True (find_all (is_tag (py ''td'')) row_soup ! 1),
            impacts = get_text [] True (find_all (is_tag (py ''td'')) row_soup ! 2),
            source = (if length (find_all (is_tag (py ''td'')) row_soup) > 3
                      then get_text [] True (find_all (is_tag (py ''td'')) row_soup ! 3) else []),
            source_links = (if length (find_all (is_tag (py ''td'')) row_soup) > 3
                      then anchor_hrefs (find_all (is_tag (py ''td'')) row_soup ! 3) else []),
            details = fst (extract_details details_row_soup),
            state_status = snd (extract_details details_row_soup),
            row_id = tag_get row_soup (py ''id'') []\<rparr>"
  using assms(1) row_fields_qualifying[OF assms(2,3)]
  by (simp add: extract_row_data_from_soup_def)

lemma extract_row_data_from_soup_not_qualifying:
  assumes "\<not> BEAUTIFULSOUP_AVAILABLE \<or> tag_get row_soup (py ''id'') [] = []
           \<or> length (find_all (is_tag (py ''td'')) row_soup) < 3"
  shows "extract_row_data_from_soup BEAUTIFULSOUP_AVAILABLE row_soup details_row_soup = None"
  using assms by (auto simp: extract_row_data_from_soup_def row_fields_def Let_def)

lemma soup_row_records_qualifying:
  assumes "tag_get row_soup (py ''id'') [] \<noteq> []"
    and "3 \<le> length (find_all (is_tag (py ''td'')) row_soup)"
  shows "soup_row_records soup row_soup =
     [the (extract_row_data_from_soup True row_soup
             (find_first (tr_with_id (py ''details_'' @ tag_get row_soup (py ''id'') [])) soup))]"
  using assms extract_row_data_from_soup_qualifying[OF TrueI assms]
  by (simp add: soup_row_records_def Let_def)

lemma demo_row_id: "tag_get demo_row (py ''id'') [] = py ''228''"
  by (simp add: demo_row_def tag_get_def)

lemma demo_row_cells:
  "find_all (is_tag (py ''td'')) demo_row =
     [text_cell (py '' Univ A ''), text_cell (py ''TX''), text_cell (py ''Closed office''),
      Tag (py ''td'') []
          [Tag (py ''a'') [(py ''href'', py ''http://x/1'')] [NavigableString (py ''one'')],
           NavigableString (py '', ''),
           Tag (py ''a'') [] [NavigableString (py ''no link'')],
           Tag (py ''span'') [] [Tag (py ''a'') [(py ''href'', py ''http://x/2'')] [NavigableString (py ''two'')]],
           Tag (py ''a'') [(py ''href'', py ''http://x/1'')] [NavigableString (py ''again'')]]]"
  by (simp add: demo_row_def find_all_def is_tag_def text_cell_def)

lemma demo_row3_id: "tag_get demo_row3 (py ''id'') [] = py ''229''"
  by (simp add: demo_row3_def tag_get_def)

lemma demo_row3_cells:
  "find_all (is_tag (py ''td'')) demo_row3 =
     [text_cell (py ''Univ B''), text_cell (py ''FL''), text_cell (py ''Renamed office'')]"
  by (simp add: demo_row3_def find_all_def is_tag_def text_cell_def)

lemma short_row_id: "tag_get short_row (py ''id'') [] = py ''230''"
  by (simp add: short_row_def tag_get_def)

lemma short_row_cells:
  "find_all (is_tag (py ''td'')) short_row = [text_cell (py ''Univ C''), text_cell (py ''OH'')]"
  by (simp add: short_row_def find_all_def is_tag_def text_cell_def)

text \<open>
  Claim C1.  When the parser library is available, a main row with a non-empty
  identifier and three cells or more makes \<open>extract_row_data_from_soup\<close> return a Record
  (one value, never \<open>None\<close>) whose \<open>row_id\<close> is the identifier of the row; and the pass
  over the parsed page appends exactly one Record for such a row, with that \<open>row_id\<close>.
\<close>

theorem extract_row_data_from_soup_one_record:
  assumes "BEAUTIFULSOUP_AVAILABLE"
    and "tag_get row_soup (py ''id'') [] \<noteq> []"
    and "3 \<le> length (find_all (is_tag (py ''td'')) row_soup)"
  shows "(\<exists>r. extract_row_data_from_soup BEAUTIFULSOUP_AVAILABLE row_soup details_row_soup = Some r
              \<and> row_id r = tag_get row_soup (py ''id'') [])
       \<and> (\<exists>r. soup_row_records soup row_soup = [r] \<and> row_id r = tag_get row_soup (py ''id'') [])"
  using extract_row_data_from_soup_qualifying[OF assms]
    extract_row_data_from_soup_qualifying[OF TrueI assms(2,3)]
    soup_row_records_qualifying[OF assms(2,3)]
  by simp

theorem extract_row_data_from_soup_one_record_witness:
  "tag_get demo_row (py ''id'') [] = py ''228''
   \<and> length (find_all (is_tag (py ''td'')) demo_row) = 4
   \<and> (\<exists>r. extract_row_data_from_soup True demo_row (Some demo_details) = Some r
            \<and> row_id r = py ''228'')
   \<and> (\<exists>r. soup_row_records detail_page demo_row = [r] \<and> row_id r = py ''228'')"
proof -
  have h1: "tag_get demo_row (py ''id'') [] \<noteq> []" by (simp add: demo_row_id)
  have h2: "3 \<le> length (find_all (is_tag (py ''td'')) demo_row)" by (simp add: demo_row_cells)
  show ?thesis
    using extract_row_data_from_soup_one_record[OF TrueI h1 h2, of "Some demo_details" detail_page]
    by (simp add: demo_row_id demo_row_cells)
qed

text \<open>
  Claim C4.  A qualifying row (non-empty identifier, three cells or more) without a
  details row still yields its Record, and \<open>details\<close> and \<open>state_status\<close> are both
  the empty string: for the function called with no details row, and for the pass over
  a parsed page that holds no row \<open>details_<id>\<close>.
\<close>

theorem missing_details_row_keeps_record:
  assumes "BEAUTIFULSOUP_AVAILABLE"
    and "tag_get row_soup (py ''id'') [] \<noteq> []"
    and "3 \<le> length (find_all (is_tag (py ''td'')) row_soup)"
  shows "(\<exists>r. extract_row_data_from_soup BEAUTIFULSOUP_AVAILABLE row_soup None = Some r
              \<and> details r = [] \<and> state_status r = [])
       \<and> (find_first (tr_with_id (py ''details_'' @ tag_get row_soup (py ''id'') [])) soup = None
            \<longrightarrow> (\<exists>r. soup_row_records soup row_soup = [r] \<and> details r = [] \<and> state_status r = []))"
  using extract_row_data_from_soup_qualifying[OF assms, of None]
    extract_row_data_from_soup_qualifying[OF TrueI assms(2,3), of None]
    soup_row_records_qualifying[OF assms(2,3), of soup]
  by (simp add: extract_details_def)

lemma demo_page_no_details_229:
  "find_first (tr_with_id (py ''details_'' @ tag_get demo_row3 (py ''id'') [])) demo_page = None"
  by (simp add: tag_get_def find_first_def demo_page_def demo_row3_def short_row_def
      text_cell_def tr_with_id_def is_tag_def)

theorem missing_details_row_keeps_record_witness:
  "tag_get demo_row3 (py ''id'') [] = py ''229''
   \<and> length (find_all (is_tag (py ''td'')) demo_row3) = 3
   \<and> find_first (tr_with_id (py ''details_'' @ tag_get demo_row3 (py ''id'') [])) demo_page = None
   \<and> (\<exists>r. extract_row_data_from_soup True demo_row3 None = Some r
            \<and> details r = [] \<and> state_status r = [])
   \<and> (\<exists>r. soup_row_records demo_page demo_row3 = [r] \<and> details r = [] \<and> state_status r = [])"
proof -
  have h1: "tag_get demo_row3 (py ''id'') [] \<noteq> []" by (simp add: demo_row3_id)
  have h2: "3 \<le> length (find_all (is_tag (py ''td'')) demo_row3)" by (simp add: demo_row3_cells)
  show ?thesis
    using missing_details_row_keeps_record[OF TrueI h1 h2, of demo_page] demo_page_no_details_229
    by (simp add: demo_row3_id demo_row3_cells)
qed

text \<open>
  Claim C9.  In every extracted Record, \<open>source_links\<close> is the list of the \<open>href\<close>
  values of the anchors of the source cell (the fourth cell) in document order, as
  \<open>anchor_hrefs\<close> reads them off the tree: one entry for each anchor that has an
  \<open>href\<close>, so equal values in the markup stay in the list as often as they occur.
  Without a fourth cell the list is empty.
\<close>

theorem source_links_document_order:
  assumes "extract_row_data_from_soup BEAUTIFULSOUP_AVAILABLE row_soup details_row_soup = Some r"
  shows "source_links r =
           (if 3 < length (find_all (is_tag (py ''td'')) row_soup)
            then anchor_hrefs (find_all (is_tag (py ''td'')) row_soup ! 3) else [])
       \<and> length (source_links r) =
           (if 3 < length (find_all (is_tag (py ''td'')) row_soup)
            then length (find_all (\<lambda>t. is_tag (py ''a'') t \<and> has_attr (py ''href'') t)
                           (find_all (is_tag (py ''td'')) row_soup ! 3))
            else 0)"
proof -
  have "\<not> (\<not> BEAUTIFULSOUP_AVAILABLE \<or> tag_get row_soup (py ''id'') [] = []
           \<or> length (find_all (is_tag (py ''td'')) row_soup) < 3)"
    using assms extract_row_data_from_soup_not_qualifying[of BEAUTIFULSOUP_AVAILABLE row_soup details_row_soup]
    by fastforce
  then have q: "BEAUTIFULSOUP_AVAILABLE" "tag_get row_soup (py ''id'') [] \<noteq> []"
    "3 \<le> length (find_all (is_tag (py ''td'')) row_soup)"
    by simp_all
  have l: "source_links r =
           (if 3 < length (find_all (is_tag (py ''td'')) row_soup)
            then anchor_hrefs (find_all (is_tag (py ''td'')) row_soup ! 3) else [])"
    using assms extract_row_data_from_soup_qualifying[OF q, of details_row_soup] by auto
  have "length (anchor_hrefs c) = length (find_all (\<lambda>t. is_tag (py ''a'') t \<and> has_attr (py ''href'') t) c)" for c
    using hrefs_document_order[of c, symmetric] by simp
  then show ?thesis using l by simp
qed

theorem source_links_document_order_witness:
  "extract_row_data_from_soup True demo_row (Some demo_details) \<noteq> None
   \<and> source_links (the (extract_row_data_from_soup True demo_row (Some demo_details)))
       = [py ''http://x/1'', py ''http://x/2'', py ''http://x/1'']"
proof -
  have h1: "tag_get demo_row (py ''id'') [] \<noteq> []" by (simp add: demo_row_id)
  have h2: "3 \<le> length (find_all (is_tag (py ''td'')) demo_row)" by (simp add: demo_row_cells)
  obtain r where r: "extract_row_data_from_soup True demo_row (Some demo_details) = Some r"
    using extract_row_data_from_soup_qualifying[OF TrueI h1 h2] by simp
  show ?thesis
    using source_links_document_order[OF r] r by (simp add: demo_row_cells)
qed

subsection \<open>The two-tier merge\<close>

text \<open>
  Claim C3.  \<open>fallback_merge\<close> is the block of the fallback line parser, applied to the
  two values \<open>d0\<close> (details) and \<open>s0\<close> (state_status) of the structured path.  A
  non-empty \<open>d0\<close> is returned as it is, and so is a non-empty \<open>s0\<close>; when both are
  non-empty the block changes nothing; applying the block to its own result changes
  nothing; and the values that the function stores for a details cell are those of the
  block applied to the structured values.
\<close>

theorem two_tier_merge_keeps_structured:
  "(d0 \<noteq> [] \<longrightarrow> fst (fallback_merge details_cell (d0, s0)) = d0)
   \<and> (s0 \<noteq> [] \<longrightarrow> snd (fallback_merge details_cell (d0, s0)) = s0)
   \<and> (d0 \<noteq> [] \<and> s0 \<noteq> [] \<longrightarrow> fallback_merge details_cell (d0, s0) = (d0, s0))
   \<and> fallback_merge details_cell (fallback_merge details_cell (d0, s0))
       = fallback_merge details_cell (d0, s0)
   \<and> (find_first (\<lambda>t. is_tag (py ''td'') t \<and> has_class (py ''details'') t) details_row = Some details_cell
        \<longrightarrow> extract_details (Some details_row)
            = fallback_merge details_cell
                (structured_details details_cell, structured_status details_cell))"
  by (simp add: fallback_merge_def extract_details_def Let_def)

lemma demo_structured:
  "structured_details demo_details_cell = py ''First.''"
  "structured_status demo_details_cell = []"
  by (simp_all add: structured_details_def structured_status_def demo_details_cell_def
      is_tag_def string_matches_def py_lower_def lower_codepoint_def py_def py_strip_def strip_where_def
      is_space_def strip_quotes_def get_text_def all_strings_def)

lemma demo_fallback_lines:
  "fallback_lines
     (filter (\<lambda>line. line \<noteq> [])
        (map py_strip (py_split 0x0A (get_text [0x0A] True demo_details_cell))))
     False False [] [] = ([py ''First.'', py ''Quoted''], [])"
  by (simp add: demo_details_cell_def get_text_def all_strings_def py_strip_def strip_where_def
      is_space_def strip_quotes_def py_lower_def lower_codepoint_def py_def)

lemma demo_details_find:
  "find_first (\<lambda>t. is_tag (py ''td'') t \<and> has_class (py ''details'') t) demo_details = Some demo_details_cell"
  by (simp add: find_first_def demo_details_def demo_details_cell_def is_tag_def has_class_def
      is_space_def py_def)

theorem two_tier_merge_keeps_structured_witness:
  "structured_details demo_details_cell = py ''First.''
   \<and> structured_status demo_details_cell = []
   \<and> fst (fallback_lines
        (filter (\<lambda>line. line \<noteq> [])
           (map py_strip (py_split 0x0A (get_text [0x0A] True demo_details_cell))))
        False False [] []) = [py ''First.'', py ''Quoted'']
   \<and> extract_details (Some demo_details) = (py ''First.'', [])
   \<and> fallback_merge demo_details_cell (py ''First.'', py ''Passed'') = (py ''First.'', py ''Passed'')"
proof -
  have f: "fst (fallback_merge demo_details_cell (py ''First.'', [])) = py ''First.''"
    and e: "extract_details (Some demo_details)
              = fallback_merge demo_details_cell
                  (structured_details demo_details_cell, structured_status demo_details_cell)"
    using two_tier_merge_keeps_structured[of "(py ''First.'')" demo_details_cell "[]" demo_details]
      demo_details_find by simp_all
  have s: "snd (fallback_merge demo_details_cell (py ''First.'', [])) = []"
    by (simp add: fallback_merge_def Let_def demo_fallback_lines)
  have c: "fallback_merge demo_details_cell (py ''First.'', py ''Passed'') = (py ''First.'', py ''Passed'')"
    using two_tier_merge_keeps_structured[of "(py ''First.'')" demo_details_cell "(py ''Passed'')" demo_details]
    by simp
  show ?thesis
    using f s e c by (simp add: demo_structured demo_fallback_lines prod_eq_iff)
qed

subsection \<open>The Detail Parser on the live page\<close>

lemma element_details_reads:
  "\<exists>ds. element_details D rid st = (Inr ds, st)"
  by (auto simp: element_details_def try_except_def pbind_def query_def pret_def any_exception_def
      split: sum.splits)

lemma selenium_extraction_returns: "returns (selenium_extraction D row_element)"
  unfolding selenium_extraction_def by (intro returns_try_any returns_pret)

lemma soup_lookup_returns: "returns (soup_lookup D bs row_element)"
  unfolding soup_lookup_def by (intro returns_try_any returns_pret)

lemma extract_row_data_returns: "returns (extract_row_data D bs row_element)"
  unfolding extract_row_data_def
  by (intro returns_pbind)
     (auto intro: returns_pret soup_lookup_returns selenium_extraction_returns split: option.splits)

lemma selenium_extraction_no_id:
  assumes "case get_attribute D row_element (py ''id'') (fst st) of
             Inl e \<Rightarrow> True | Inr rid \<Rightarrow> or_empty rid = []"
  shows "selenium_extraction D row_element st = (Inr None, st)"
  using assms
  by (auto simp: selenium_extraction_def try_except_def pbind_def query_def pret_def
      any_exception_def split: sum.splits)

lemma selenium_extraction_few_cells:
  assumes "find_elements D (Some row_element) CSS_SELECTOR (py ''td'') (fst st) = Inr cells"
    and "length cells < 3"
  shows "selenium_extraction D row_element st = (Inr None, st)"
  using assms
  by (auto simp: selenium_extraction_def try_except_def pbind_def query_def pret_def
      any_exception_def split: sum.splits)

lemma soup_lookup_no_id:
  assumes "case get_attribute D row_element (py ''id'') (fst st) of
             Inl e \<Rightarrow> True | Inr rid \<Rightarrow> or_empty rid = []"
  shows "soup_lookup D bs row_element st = (Inr None, st)"
  using assms
  by (auto simp: soup_lookup_def try_except_def pbind_def query_def pret_def
      any_exception_def split: sum.splits)

lemma soup_lookup_few_cells:
  assumes "case soup_view D row_element (fst st) of
             None \<Rightarrow> True
           | Some row_soup \<Rightarrow> length (find_all (is_tag (py ''td'')) row_soup) < 3"
  shows "soup_lookup D bs row_element st = (Inr None, st) \<or> soup_lookup D bs row_element st = (Inr (Some None), st)"
  using assms
  by (auto simp: soup_lookup_def soup_view_def parse_html_with_beautifulsoup_def try_except_def
      pbind_def query_def pret_def any_exception_def extract_row_data_from_soup_not_qualifying
      split: sum.splits option.splits)

lemma extract_row_data_no_id:
  assumes "case get_attribute D row_element (py ''id'') (fst st) of
             Inl e \<Rightarrow> True | Inr rid \<Rightarrow> or_empty rid = []"
  shows "extract_row_data D bs row_element st = (Inr None, st)"
  using soup_lookup_no_id[OF assms, of bs] selenium_extraction_no_id[OF assms]
  by (cases bs) (simp_all add: extract_row_data_def pbind_def pret_def)

lemma extract_row_data_few_cells:
  assumes "find_elements D (Some row_element) CSS_SELECTOR (py ''td'') (fst st) = Inr cells"
    and "length cells < 3"
    and "case soup_view D row_element (fst st) of
             None \<Rightarrow> True
           | Some row_soup \<Rightarrow> length (find_all (is_tag (py ''td'')) row_soup) < 3"
  shows "extract_row_data D bs row_element st = (Inr None, st)"
  using soup_lookup_few_cells[OF assms(3), of bs] selenium_extraction_few_cells[OF assms(1,2)]
  by (cases bs) (auto simp: extract_row_data_def pbind_def pret_def)

text \<open>
  Claim C2.  A row with an empty identifier or with fewer than three cells yields no
  Record, and the failure is the result \<open>None\<close>, not an exception.  For the parser on
  the parsed row this is \<open>extract_row_data_from_soup\<close>; for the extraction through
  Selenium it is \<open>selenium_extraction\<close>, the second \<open>try\<close> of \<open>extract_row_data\<close>, which
  returns \<open>None\<close> and leaves the run as it was.  \<open>extract_row_data\<close> as a whole never
  raises; it returns \<open>None\<close> for a row without identifier, and for a row with fewer
  than three cells when the row that its first \<open>try\<close> finds in the parsed page (if it
  finds one) has fewer than three cells as well.
\<close>

theorem too_few_cells_or_no_id_yields_none:
  "(tag_get row_soup (py ''id'') [] = [] \<or> length (find_all (is_tag (py ''td'')) row_soup) < 3
      \<longrightarrow> extract_row_data_from_soup BEAUTIFULSOUP_AVAILABLE row_soup details_row_soup = None)
   \<and> ((case get_attribute D row_element (py ''id'') (fst st) of
          Inl e \<Rightarrow> True | Inr rid \<Rightarrow> or_empty rid = [])
      \<longrightarrow> selenium_extraction D row_element st = (Inr None, st)
          \<and> extract_row_data D BEAUTIFULSOUP_AVAILABLE row_element st = (Inr None, st))
   \<and> (find_elements D (Some row_element) CSS_SELECTOR (py ''td'') (fst st) = Inr cells
        \<and> length cells < 3
      \<longrightarrow> selenium_extraction D row_element st = (Inr None, st))
   \<and> (find_elements D (Some row_element) CSS_SELECTOR (py ''td'') (fst st) = Inr cells
        \<and> length cells < 3
        \<and> (case soup_view D row_element (fst st) of
              None \<Rightarrow> True
            | Some row_soup \<Rightarrow> length (find_all (is_tag (py ''td'')) row_soup) < 3)
      \<longrightarrow> extract_row_data D BEAUTIFULSOUP_AVAILABLE row_element st = (Inr None, st))
   \<and> (\<exists>r st'. extract_row_data D BEAUTIFULSOUP_AVAILABLE row_element st = (Inr r, st'))"
  using extract_row_data_from_soup_not_qualifying[of BEAUTIFULSOUP_AVAILABLE row_soup details_row_soup]
    selenium_extraction_no_id[of D row_element st]
    extract_row_data_no_id[of D row_element st BEAUTIFULSOUP_AVAILABLE]
    selenium_extraction_few_cells[of D row_element st cells]
    extract_row_data_few_cells[of D row_element st cells BEAUTIFULSOUP_AVAILABLE]
    extract_row_data_returns[of D BEAUTIFULSOUP_AVAILABLE row_element]
  unfolding returns_def by blast

lemma demo_soup_view_2: "soup_view demo_driver 2 0 = Some short_row"
  by (simp add: soup_view_def demo_driver_def or_empty_def find_first_def demo_page_def
      demo_row3_def short_row_def text_cell_def tr_with_id_def is_tag_def)

theorem too_few_cells_or_no_id_yields_none_witness:
  "length (find_all (is_tag (py ''td'')) short_row) = 2
   \<and> extract_row_data_from_soup True short_row None = None
   \<and> find_elements demo_driver (Some 2) CSS_SELECTOR (py ''td'') 0 = Inr [21, 22]
   \<and> soup_view demo_driver 2 0 = Some short_row
   \<and> selenium_extraction demo_driver 2 (0, []) = (Inr None, (0, []))
   \<and> extract_row_data demo_driver True 2 (0, []) = (Inr None, (0, []))
   \<and> get_attribute demo_driver 21 (py ''id'') 0 = Inr None
   \<and> extract_row_data demo_driver True 21 (0, []) = (Inr None, (0, []))"
proof -
  have c: "find_elements demo_driver (Some 2) CSS_SELECTOR (py ''td'') (fst (0::nat, [])) = Inr [21, 22]"
    by (simp add: demo_driver_def)
  have g: "get_attribute demo_driver 21 (py ''id'') (fst (0::nat, [])) = Inr None"
    by (simp add: demo_driver_def)
  show ?thesis
    using too_few_cells_or_no_id_yields_none[of short_row True None demo_driver 2 "(0, [])" "[21, 22]"]
      too_few_cells_or_no_id_yields_none[of short_row True None demo_driver 21 "(0, [])" "[]"]
      c g demo_soup_view_2
    by (simp add: short_row_cells or_empty_def)
qed

lemma element_cell_text_in_range:
  "i < length cells \<Longrightarrow> element_text D (cells ! i) (fst st) = Inr t \<Longrightarrow>
   element_cell_text D cells i st = (Inr (py_strip t), st)"
  by (simp add: element_cell_text_def pbind_def lift_def py_index_def query_def pret_def)

lemma element_cell_text_out_of_range:
  "\<not> i < length cells \<Longrightarrow> element_cell_text D cells i st = (Inr [], st)"
  by (simp add: element_cell_text_def pret_def)

lemma element_links_out_of_range:
  "\<not> 3 < length cells \<Longrightarrow> element_links D cells st = (Inr [], st)"
  by (simp add: element_links_def pret_def)

lemma selenium_extraction_three_cells:
  assumes rid: "get_attribute D row_element (py ''id'') (fst st) = Inr rid" "or_empty rid \<noteq> []"
    and cells: "find_elements D (Some row_element) CSS_SELECTOR (py ''td'') (fst st) = Inr cells"
      "length cells = 3"
    and texts: "list_all (\<lambda>c. succeeds (element_text D c (fst st))) cells"
  shows "\<exists>r. selenium_extraction D row_element st = (Inr (Some r), st)
            \<and> source r = [] \<and> source_links r = [] \<and> row_id r = or_empty rid"
proof -
  obtain c0 c1 c2 where cs: "cells = [c0, c1, c2]"
    using cells(2) by (auto simp: length_Suc_conv numeral_3_eq_3)
  obtain t0 t1 t2 where t: "element_text D c0 (fst st) = Inr t0"
    "element_text D c1 (fst st) = Inr t1" "element_text D c2 (fst st) = Inr t2"
    using texts cs by (auto simp: succeeds_def split: sum.splits)
  have e0: "element_cell_text D cells 0 st = (Inr (py_strip t0), st)"
    and e1: "element_cell_text D cells 1 st = (Inr (py_strip t1), st)"
    and e2: "element_cell_text D cells 2 st = (Inr (py_strip t2), st)"
    using t cs by (simp_all add: element_cell_text_in_range)
  have e3: "element_cell_text D cells 3 st = (Inr [], st)"
    using cells(2) by (simp add: element_cell_text_out_of_range)
  have l: "element_links D cells st = (Inr [], st)"
    using cells(2) by (simp add: element_links_out_of_range)
  obtain ds where d: "element_details D (or_empty rid) st = (Inr ds, st)"
    using element_details_reads by blast
  have "selenium_extraction D row_element st =
          (Inr (Some \<lparr>institution = py_strip t0, state = py_strip t1, impacts = py_strip t2,
                      source = [], source_links = [], details = fst ds,
                      state_status = snd ds, row_id = or_empty rid\<rparr>), st)"
    using rid cells e0 e1 e2 e3 l d
    by (simp add: selenium_extraction_def try_except_def pbind_def query_def pret_def)
  then show ?thesis by simp
qed

text \<open>
  Claim C10.  For a row with a non-empty identifier and exactly three cells the
  extraction succeeds, and \<open>source\<close> is the empty string and \<open>source_links\<close> the empty
  list.  The fourth cell is read under the guard on the length only: neither
  \<open>cell_text\<close> nor \<open>cell_links\<close> raises \<open>IndexError\<close>, for any list of cells and any
  index.  The same holds for the extraction through Selenium (\<open>selenium_extraction\<close>),
  when the texts of the three cells can be read.
\<close>

theorem three_cells_empty_source:
  "(BEAUTIFULSOUP_AVAILABLE \<and> tag_get row_soup (py ''id'') [] \<noteq> []
      \<and> length (find_all (is_tag (py ''td'')) row_soup) = 3
      \<longrightarrow> (\<exists>r. extract_row_data_from_soup BEAUTIFULSOUP_AVAILABLE row_soup details_row_soup = Some r
                \<and> source r = [] \<and> source_links r = []))
   \<and> cell_text cells i \<noteq> Inl IndexError
   \<and> cell_links cells \<noteq> Inl IndexError
   \<and> (get_attribute D row_element (py ''id'') (fst st) = Inr rid \<and> or_empty rid \<noteq> []
        \<and> find_elements D (Some row_element) CSS_SELECTOR (py ''td'') (fst st) = Inr els
        \<and> length els = 3
        \<and> list_all (\<lambda>c. succeeds (element_text D c (fst st))) els
      \<longrightarrow> (\<exists>r. selenium_extraction D row_element st = (Inr (Some r), st)
                \<and> source r = [] \<and> source_links r = []))"
proof -
  have a: "\<exists>r. extract_row_data_from_soup BEAUTIFULSOUP_AVAILABLE row_soup details_row_soup = Some r
                \<and> source r = [] \<and> source_links r = []"
    if "BEAUTIFULSOUP_AVAILABLE" "tag_get row_soup (py ''id'') [] \<noteq> []"
      "length (find_all (is_tag (py ''td'')) row_soup) = 3"
    using extract_row_data_from_soup_qualifying[OF that(1,2), of details_row_soup] that(3) by simp
  have b: "cell_text cells i \<noteq> Inl IndexError"
    by (cases "i < length cells") (simp_all add: cell_text_in_range cell_text_out_of_range)
  have c: "cell_links cells \<noteq> Inl IndexError"
    by (cases "3 < length cells") (simp_all add: cell_links_in_range cell_links_out_of_range)
  show ?thesis
    using a b c selenium_extraction_three_cells[of D row_element st rid els] by blast
qed

theorem three_cells_empty_source_witness:
  "tag_get demo_row3 (py ''id'') [] = py ''229''
   \<and> length (find_all (is_tag (py ''td'')) demo_row3) = 3
   \<and> (\<exists>r. extract_row_data_from_soup True demo_row3 None = Some r
            \<and> source r = [] \<and> source_links r = [])
   \<and> get_attribute demo_driver 1 (py ''id'') 0 = Inr (Some (py ''229''))
   \<and> find_elements demo_driver (Some 1) CSS_SELECTOR (py ''td'') 0 = Inr [11, 12, 13]
   \<and> (\<exists>r. selenium_extraction demo_driver 1 (0, []) = (Inr (Some r), (0, []))
            \<and> source r = [] \<and> source_links r = [])"
proof -
  have g: "get_attribute demo_driver 1 (py ''id'') (fst (0::nat, [])) = Inr (Some (py ''229''))"
    and f: "find_elements demo_driver (Some 1) CSS_SELECTOR (py ''td'') (fst (0::nat, [])) = Inr [11, 12, 13]"
    and t: "list_all (\<lambda>c. succeeds (element_text demo_driver c (fst (0::nat, [])))) [11, 12, 13]"
    by (simp_all add: demo_driver_def succeeds_def)
  show ?thesis
    using three_cells_empty_source[of True demo_row3 None "[]" 0 demo_driver 1 "(0, [])"
        "Some (py ''229'')" "[11, 12, 13]"] g f t
    by (simp add: demo_row3_id demo_row3_cells or_empty_def)
qed

subsection \<open>The page count\<close>

lemma neg_div_25: "- (- k div 25) = k div 25 + (if k mod 25 = 0 then 0 else 1)" for k :: int
  by (simp add: zdiv_zminus1_eq_if)

lemma int_mod_25: "(int n mod 25 = 0) = (n mod 25 = 0)"
proof -
  have "int n mod 25 = int (n mod 25)" by (simp add: zmod_int)
  then show ?thesis by simp
qed

lemma pages_of_total_ceiling: "int (pages_of_total n) = \<lceil>real n / 25\<rceil>"
proof -
  have "\<lceil>real n / 25\<rceil> = \<lceil>real_of_int (int n) / real_of_int 25\<rceil>" by simp
  also have "\<dots> = - (- int n div 25)" by (rule ceiling_divide_eq_div)
  also have "\<dots> = int n div 25 + (if int n mod 25 = 0 then 0 else 1)" by (rule neg_div_25)
  also have "\<dots> = int (n div 25) + (if n mod 25 > 0 then 1 else 0)"
    unfolding int_mod_25 by (simp add: zdiv_int)
  finally show ?thesis by (simp add: pages_of_total_def Let_def)
qed

lemma match_of_at_digits:
  "match_of_at s = Some digits \<Longrightarrow> digits \<noteq> [] \<and> list_all is_digit digits"
  by (auto simp: match_of_at_def Let_def list_all_iff split: if_splits dest: set_takeWhileD)

lemma re_search_of_digits:
  "re_search_of s = Some digits \<Longrightarrow> digits \<noteq> [] \<and> list_all is_digit digits"
  by (induction s) (auto split: option.splits dest: match_of_at_digits)

lemma py_int_digits:
  "digits \<noteq> [] \<Longrightarrow> list_all is_digit digits \<Longrightarrow> length digits \<le> 4300 \<Longrightarrow>
   py_int digits = Inr (decimal digits)"
  by (simp add: py_int_def)

lemma py_int_long: "4300 < length digits \<Longrightarrow> py_int digits = Inl ValueError"
  by (simp add: py_int_def)

lemma get_total_pages_summary:
  assumes "find_element D None CSS_SELECTOR
             (py ''.pagination-info, [class*='' @ q @ py ''pagination'' @ q @ py ''], [class*=''
              @ q @ py ''count'' @ q @ py '']'') (fst st) = Inr el"
    and "element_text D el (fst st) = Inr pagination_text"
    and "re_search_of pagination_text = Some digits"
    and "length digits \<le> 4300"
  shows "get_total_pages D st = (Inr (pages_of_total (decimal digits)), st)"
  using assms(1-3) py_int_digits[of digits] re_search_of_digits[OF assms(3)] assms(4)
  by (simp add: get_total_pages_def pages_from_summary_def try_except_def pbind_def query_def
      pret_def lift_def)

lemma get_total_pages_long:
  assumes "find_element D None CSS_SELECTOR
             (py ''.pagination-info, [class*='' @ q @ py ''pagination'' @ q @ py ''], [class*=''
              @ q @ py ''count'' @ q @ py '']'') (fst st) = Inr el"
    and "element_text D el (fst st) = Inr pagination_text"
    and "re_search_of pagination_text = Some digits"
    and "4300 < length digits"
  shows "get_total_pages D st =
           pbind (pages_from_buttons D)
             (\<lambda>r2. case r2 of Some n \<Rightarrow> pret n | None \<Rightarrow> pret 1) st"
proof -
  have "pages_from_summary D st = (Inr None, st)"
    using assms(1-3) py_int_long[OF assms(4)]
    by (simp add: pages_from_summary_def try_except_def pbind_def query_def pret_def lift_def
        any_exception_def)
  then show ?thesis by (simp add: get_total_pages_def pbind_def del: One_nat_def)
qed

lemma get_total_pages_returns: "returns (get_total_pages D)"
  unfolding get_total_pages_def pages_from_summary_def pages_from_buttons_def
  by (intro returns_pbind returns_try_any returns_pret)
     (auto intro!: returns_pbind returns_try_any returns_pret split: option.splits)

lemmas digit_defs = is_digit_def digit_value_def digit_zero_def digit_zeros_def

lemma summary_300_match: "re_search_of summary_300 = Some (py ''300'')"
  by (simp add: summary_300_def match_of_at_def is_space_def digit_defs py_def)

lemma of_301_match: "re_search_of (py ''of 301'') = Some (py ''301'')"
  by (simp add: match_of_at_def is_space_def digit_defs py_def)

lemma nbsp_match: "re_search_of (py ''of'' @ [0xA0] @ py ''50 of 300'') = Some (py ''50'')"
  by (simp add: match_of_at_def is_space_def digit_defs py_def)

lemma decimal_examples:
  "decimal (py ''300'') = 300" "decimal (py ''301'') = 301" "decimal (py ''50'') = 50"
  "decimal [0x663, 0x660, 0x660] = 300"
  by (simp_all add: decimal_def digit_defs py_def)

lemma pages_of_total_examples:
  "pages_of_total 300 = 12" "pages_of_total 301 = 13" "pages_of_total 50 = 2"
  by (simp_all add: pages_of_total_def)

text \<open>
  Claim C6, amended.  When the pagination summary is found and its text holds a match
  of \<open>of\s+(\d+)\<close>, group 1 of the leftmost match is a non-empty run of decimal digits;
  let \<open>N\<close> be the number it writes.  When the run has at most 4300 digits,
  \<open>get_total_pages\<close> returns \<open>pages_of_total N\<close>, which is \<open>N div 25\<close> plus one when
  \<open>N mod 25 > 0\<close>, and that is the ceiling of \<open>N / 25\<close>.  When the run is longer,
  \<open>int\<close> raises and the function goes on with the count of the page-number controls.
  The summary \<open>Showing 1-25 of 300\<close> (with an en dash) gives 12 and \<open>of 301\<close> gives 13;
  in \<open>of 50 of 300\<close> with a no-break space after the first \<open>of\<close> the leftmost match
  reads 50, which gives 2.
\<close>

theorem total_pages_is_ceiling:
  "(find_element D None CSS_SELECTOR
             (py ''.pagination-info, [class*='' @ q @ py ''pagination'' @ q @ py ''], [class*=''
              @ q @ py ''count'' @ q @ py '']'') (fst st) = Inr el
      \<and> element_text D el (fst st) = Inr pagination_text
      \<and> re_search_of pagination_text = Some digits
    \<longrightarrow> digits \<noteq> [] \<and> list_all is_digit digits
        \<and> (length digits \<le> 4300
             \<longrightarrow> get_total_pages D st = (Inr (pages_of_total (decimal digits)), st))
        \<and> (4300 < length digits
             \<longrightarrow> get_total_pages D st =
                   pbind (pages_from_buttons D)
                     (\<lambda>r2. case r2 of Some n \<Rightarrow> pret n | None \<Rightarrow> pret 1) st))
   \<and> pages_of_total n = n div 25 + (if n mod 25 > 0 then 1 else 0)
   \<and> int (pages_of_total n) = \<lceil>real n / 25\<rceil>
   \<and> re_search_of summary_300 = Some (py ''300'') \<and> decimal (py ''300'') = 300
   \<and> pages_of_total 300 = 12
   \<and> re_search_of (py ''of 301'') = Some (py ''301'') \<and> decimal (py ''301'') = 301
   \<and> pages_of_total 301 = 13
   \<and> re_search_of (py ''of'' @ [0xA0] @ py ''50 of 300'') = Some (py ''50'')
   \<and> decimal (py ''50'') = 50 \<and> pages_of_total 50 = 2"
proof -
  have a: "digits \<noteq> [] \<and> list_all is_digit digits
        \<and> (length digits \<le> 4300
             \<longrightarrow> get_total_pages D st = (Inr (pages_of_total (decimal digits)), st))
        \<and> (4300 < length digits
             \<longrightarrow> get_total_pages D st =
                   pbind (pages_from_buttons D)
                     (\<lambda>r2. case r2 of Some n \<Rightarrow> pret n | None \<Rightarrow> pret 1) st)"
    if "find_element D None CSS_SELECTOR
             (py ''.pagination-info, [class*='' @ q @ py ''pagination'' @ q @ py ''], [class*=''
              @ q @ py ''count'' @ q @ py '']'') (fst st) = Inr el"
      "element_text D el (fst st) = Inr pagination_text"
      "re_search_of pagination_text = Some digits"
    using re_search_of_digits[OF that(3)] get_total_pages_summary[OF that]
      get_total_pages_long[OF that] by blast
  have b: "pages_of_total n = n div 25 + (if n mod 25 > 0 then 1 else 0)"
    by (simp add: pages_of_total_def)
  show ?thesis
    using a b pages_of_total_ceiling[of n] summary_300_match of_301_match nbsp_match
      decimal_examples pages_of_total_examples
    by blast
qed

lemma demo_summary_found:
  "find_element demo_driver None CSS_SELECTOR
             (py ''.pagination-info, [class*='' @ q @ py ''pagination'' @ q @ py ''], [class*=''
              @ q @ py ''count'' @ q @ py '']'') s = Inr 50"
  "find_element big_driver None CSS_SELECTOR
             (py ''.pagination-info, [class*='' @ q @ py ''pagination'' @ q @ py ''], [class*=''
              @ q @ py ''count'' @ q @ py '']'') s = Inr 50"
  by (simp_all add: demo_driver_def big_driver_def q_def py_def)

lemma takeWhile_digits_replicate:
  "is_digit c \<Longrightarrow> takeWhile is_digit (replicate n c) = replicate n c"
  by (simp add: takeWhile_replicate)

lemma is_digit_0_1: "is_digit 0x30" "is_digit 0x31" "digit_value 0x30 = 0" "digit_value 0x31 = 1"
  by (simp_all add: digit_defs)

lemma big_summary_match: "re_search_of big_summary = Some big_digits"
  by (simp add: big_summary_def big_digits_def match_of_at_def is_space_def py_def
      is_digit_0_1 takeWhile_digits_replicate)

lemma big_digits_length: "length big_digits = 4301"
  by (simp add: big_digits_def)

lemma foldl_decimal_zeros:
  "foldl (\<lambda>acc c. 10 * acc + digit_value c) a (replicate n 0x30) = a * 10 ^ n"
  by (induction n arbitrary: a) (simp_all add: is_digit_0_1)

lemma big_digits_decimal: "decimal big_digits = 10 ^ 4300"
  unfolding decimal_def big_digits_def foldl.simps
  by (simp only: foldl_decimal_zeros is_digit_0_1 mult_zero_right add_0 mult_1)

lemma big_pages_buttons: "pages_from_buttons big_driver st = (Inr None, st)"
  by (simp add: pages_from_buttons_def try_except_def pbind_def query_def pret_def
      big_driver_def demo_driver_def q_def py_def)

lemma big_total_pages: "get_total_pages big_driver (0, []) = (Inr 1, (0, []))"
proof -
  have t: "element_text big_driver 50 (fst (0::nat, [])) = Inr big_summary"
    by (simp add: big_driver_def)
  have l: "4300 < length big_digits" by (simp add: big_digits_length)
  show ?thesis
    using get_total_pages_long[OF demo_summary_found(2) t big_summary_match l]
    by (simp add: pbind_def big_pages_buttons pret_def)
qed

lemma pages_of_total_ge: "50 \<le> n \<Longrightarrow> 1 < pages_of_total n"
proof -
  assume "50 \<le> n"
  then have "50 div 25 \<le> n div 25" by (rule div_le_mono)
  then show ?thesis by (simp add: pages_of_total_def)
qed

lemma pages_of_big: "1 < pages_of_total (10 ^ 4300)"
proof -
  have "(10::nat) ^ 2 \<le> 10 ^ 4300" by (rule power_increasing) simp_all
  moreover have "(50::nat) \<le> 10 ^ 2" by simp
  ultimately have "(50::nat) \<le> 10 ^ 4300" by (rule order_trans[rotated])
  then show ?thesis by (rule pages_of_total_ge)
qed

text \<open>
  The claim as stated fails on a number of more than 4300 digits: the summary is found
  and holds \<open>of 1000...0\<close> with 4300 zeros, \<open>int\<close> raises \<open>ValueError\<close>, and without
  page-number controls the result is 1, which is not the ceiling of \<open>N / 25\<close>.
\<close>

theorem total_pages_is_ceiling_counterexample:
  "find_element big_driver None CSS_SELECTOR
             (py ''.pagination-info, [class*='' @ q @ py ''pagination'' @ q @ py ''], [class*=''
              @ q @ py ''count'' @ q @ py '']'') 0 = Inr 50
   \<and> element_text big_driver 50 0 = Inr big_summary
   \<and> re_search_of big_summary = Some big_digits
   \<and> decimal big_digits = 10 ^ 4300
   \<and> py_int big_digits = Inl ValueError
   \<and> get_total_pages big_driver (0, []) = (Inr 1, (0, []))
   \<and> 1 < pages_of_total (10 ^ 4300)"
proof -
  have t: "element_text big_driver 50 0 = Inr big_summary"
    by (simp add: big_driver_def)
  have v: "py_int big_digits = Inl ValueError"
    by (rule py_int_long) (simp add: big_digits_length)
  show ?thesis
    using demo_summary_found(2)[of 0] t big_summary_match big_digits_decimal v big_total_pages
      pages_of_big
    by blast
qed

theorem total_pages_is_ceiling_witness:
  "find_element demo_driver None CSS_SELECTOR
             (py ''.pagination-info, [class*='' @ q @ py ''pagination'' @ q @ py ''], [class*=''
              @ q @ py ''count'' @ q @ py '']'') 0 = Inr 50
   \<and> element_text demo_driver 50 0 = Inr summary_300
   \<and> re_search_of summary_300 = Some (py ''300'')
   \<and> length (py ''300'') \<le> 4300
   \<and> get_total_pages demo_driver (0, []) = (Inr 12, (0, []))
   \<and> decimal [0x663, 0x660, 0x660] = 300"
proof -
  have f: "find_element demo_driver None CSS_SELECTOR
             (py ''.pagination-info, [class*='' @ q @ py ''pagination'' @ q @ py ''], [class*=''
              @ q @ py ''count'' @ q @ py '']'') (fst (0::nat, [])) = Inr 50"
    by (simp add: demo_summary_found)
  have t: "element_text demo_driver 50 (fst (0::nat, [])) = Inr summary_300"
    by (simp add: demo_driver_def)
  have l: "length (py ''300'') \<le> 4300" by (simp add: py_def)
  have g: "get_total_pages demo_driver (0, []) = (Inr (pages_of_total (decimal (py ''300''))), (0, []))"
    using total_pages_is_ceiling[of demo_driver "(0, [])" 50 summary_300 "py ''300''" 0] f t l
    by blast
  show ?thesis
    using g f t l summary_300_match decimal_examples pages_of_total_examples
    by simp
qed

subsection \<open>The Row Expander\<close>

lemma clicks_append_neq: "clicks st' = clicks st @ [c] \<Longrightarrow> clicks st' \<noteq> clicks st"
  by simp







subsection \<open>Advancing\<close>

lemma demo_next_candidates: "next_candidates demo_driver st = (Inr [60], st)"
  by (simp add: next_candidates_def probe_def try_except_def pbind_def query_def pret_def
      outcome_def demo_driver_def q_def no_such_element_def py_def)

lemma endless_next_candidates: "next_candidates endless_driver st = (Inr [60], st)"
  by (simp add: next_candidates_def probe_def try_except_def pbind_def query_def pret_def
      outcome_def demo_driver_def endless_driver_def q_def no_such_element_def py_def)

lemma stuck_next_candidates: "next_candidates stuck_driver st = (Inr [60], st)"
  by (simp add: next_candidates_def probe_def try_except_def pbind_def query_def pret_def
      outcome_def demo_driver_def endless_driver_def stuck_driver_def q_def no_such_element_def
      py_def)

lemma demo_run_script:
  "run_script demo_driver sc st =
     (Inr (), (if sc = Click 60 then fst st + 1 else fst st, snd st @ [(sc, None)]))"
  "run_script endless_driver sc st =
     (Inr (), (if sc = Click 60 then fst st + 1 else fst st, snd st @ [(sc, None)]))"
  by (simp_all add: run_script_def demo_driver_def endless_driver_def)

lemma demo_time_sleep:
  "time_sleep demo_driver n st = (Inr (), st)"
  "time_sleep endless_driver n st = (Inr (), st)"
  "time_sleep stuck_driver n st = (Inr (), st)"
  by (simp_all add: time_sleep_def demo_driver_def endless_driver_def stuck_driver_def)

lemma demo_is_enabled:
  "is_enabled demo_driver el s = Inr (el \<noteq> 60)"
  "is_enabled endless_driver el s = Inr True"
  by (simp_all add: demo_driver_def endless_driver_def)

lemma demo_click_candidates: "click_candidates demo_driver fast [60] st = (Inr False, st)"
  by (rule click_candidates_none_enabled) (simp add: demo_is_enabled)

lemma endless_click_candidates:
  "click_candidates endless_driver fast [60] st =
     (Inr True, (fst st + 1, snd st @ [(ScrollIntoView 60, None), (Click 60, None)]))"
  by (simp add: try_except_def pbind_def query_def pret_def demo_run_script demo_time_sleep
      demo_is_enabled)

lemma demo_go_to_next_page:
  "go_to_next_page demo_driver fast st = (Inr False, (fst st, snd st @ [(ScrollToBottom, None)]))"
  by (simp add: go_to_next_page_def try_except_def pbind_def demo_run_script demo_time_sleep
      demo_next_candidates demo_click_candidates del: click_candidates.simps)

lemma endless_go_to_next_page:
  "go_to_next_page endless_driver fast st =
     (Inr True, (fst st + 1, snd st @ [(ScrollToBottom, None), (ScrollIntoView 60, None),
                                       (Click 60, None)]))"
  by (simp add: go_to_next_page_def try_except_def pbind_def demo_run_script demo_time_sleep
      endless_next_candidates endless_click_candidates del: click_candidates.simps)






lemma scrape_loop_stops_on_failure:
  assumes "scrape_page D bs fast expand_rows all_data st = (Inr data1, st1)"
    and "go_to_next_page D fast st1 = (Inr False, st2)"
  shows "scrape_loop D bs fast expand_rows max_pages page_num all_data st
         = (Inr (data1, page_num), st2)"
  using assms by (subst scrape_loop.simps) simp


lemma demo_scrape_page:
  "scrape_page demo_driver True False True [] (0, []) =
     (Inr [\<lparr>institution = py ''Univ B'', state = py ''FL'', impacts = py ''Renamed office'',
             source = [], source_links = [], details = [], state_status = [],
             row_id = py ''229''\<rparr>],
      (0, [(ScrollIntoView 1, None), (Click 70, None)]))"
  by code_simp


subsection \<open>The bound on the pages\<close>

lemma scrape_loop_always_advancing:
  "\<forall>st1. fst (go_to_next_page D fast st1) = Inr True \<Longrightarrow> 1 \<le> page_num \<Longrightarrow> page_num \<le> 20 \<Longrightarrow>
   pages_processed (scrape_loop D bs fast expand_rows max_pages page_num all_data st)
   = Some (case max_pages of None \<Rightarrow> 20 | Some m \<Rightarrow> nat (max (int page_num) (min m 20)))"
proof (induction D bs fast expand_rows max_pages page_num all_data st rule: scrape_loop.induct)
  case (1 D bs fast expand_rows max_pages page_num all_data st)
  obtain data1 st1 where sp: "scrape_page D bs fast expand_rows all_data st = (Inr data1, st1)"
    using scrape_page_returns[of D bs fast expand_rows all_data] unfolding returns_def by blast
  obtain r st2 where gn0: "go_to_next_page D fast st1 = (r, st2)"
    by (cases "go_to_next_page D fast st1")
  then have gn: "go_to_next_page D fast st1 = (Inr True, st2)"
    using "1.prems"(1)[rule_format, of st1] by simp
  show ?case
  proof (cases "(case max_pages of None \<Rightarrow> False | Some m \<Rightarrow> int (page_num + 1) > m)
                 \<or> page_num + 1 > 20")
    case True
    then have "scrape_loop D bs fast expand_rows max_pages page_num all_data st
               = (Inr (data1, page_num), st2)"
      using sp gn by (subst scrape_loop.simps) auto
    then show ?thesis using True "1.prems"(2,3)
      by (auto simp: pages_processed_def split: option.splits)
  next
    case False
    then have cap: "\<not> (case max_pages of None \<Rightarrow> False | Some m \<Rightarrow> int (page_num + 1) > m)"
      and hard: "\<not> page_num + 1 > 20" by auto
    have eq: "scrape_loop D bs fast expand_rows max_pages page_num all_data st
              = scrape_loop D bs fast expand_rows max_pages (page_num + 1) data1 st2"
      using sp gn cap hard by (subst scrape_loop.simps) simp
    have "pages_processed (scrape_loop D bs fast expand_rows max_pages (page_num + 1) data1 st2)
          = Some (case max_pages of None \<Rightarrow> 20
                  | Some m \<Rightarrow> nat (max (int (page_num + 1)) (min m 20)))"
      using "1.IH"[OF sp[symmetric] refl gn[symmetric] refl] cap hard "1.prems" by simp
    then show ?thesis using eq cap hard by (auto split: option.splits)
  qed
qed

text \<open>
  Claim C5, amended.  The page loop is a total function and never raises: from page 1
  it returns the data and the number \<open>n\<close> of pages processed, with \<open>1 \<le> n \<le> 20\<close>; with a
  cap \<open>max_pages = m\<close> it processes at most \<open>max 1 m\<close> pages, and exactly one page for
  \<open>m = 1\<close>.  When every advance reports success the number of pages is exactly 20
  without a cap and \<open>max 1 (min m 20)\<close> with a cap \<open>m\<close>.  The total number of pages
  detected is not an argument of the loop.
\<close>

theorem scrape_loop_page_bound:
  "(\<exists>data n st'.
       scrape_loop D BEAUTIFULSOUP_AVAILABLE fast expand_rows max_pages 1 [] st
         = (Inr (data, n), st')
       \<and> 1 \<le> n \<and> n \<le> 20
       \<and> (\<forall>m. max_pages = Some m \<longrightarrow> int n \<le> max 1 m)
       \<and> (max_pages = Some 1 \<longrightarrow> n = 1))
   \<and> ((\<forall>st1. fst (go_to_next_page D fast st1) = Inr True)
        \<longrightarrow> pages_processed
              (scrape_loop D BEAUTIFULSOUP_AVAILABLE fast expand_rows max_pages 1 [] st)
            = Some (case max_pages of None \<Rightarrow> 20 | Some m \<Rightarrow> nat (max 1 (min m 20))))"
proof -
  have "\<exists>data n st'.
       scrape_loop D BEAUTIFULSOUP_AVAILABLE fast expand_rows max_pages 1 [] st
         = (Inr (data, n), st')
       \<and> 1 \<le> n \<and> n \<le> 20
       \<and> (case max_pages of None \<Rightarrow> True | Some m \<Rightarrow> int n \<le> max (int 1) m)"
    by (rule scrape_loop_bounds) simp_all
  then have a: "\<exists>data n st'.
       scrape_loop D BEAUTIFULSOUP_AVAILABLE fast expand_rows max_pages 1 [] st
         = (Inr (data, n), st')
       \<and> 1 \<le> n \<and> n \<le> 20
       \<and> (\<forall>m. max_pages = Some m \<longrightarrow> int n \<le> max 1 m)
       \<and> (max_pages = Some 1 \<longrightarrow> n = 1)"
    by (cases max_pages) auto
  have b: "pages_processed
              (scrape_loop D BEAUTIFULSOUP_AVAILABLE fast expand_rows max_pages 1 [] st)
            = Some (case max_pages of None \<Rightarrow> 20 | Some m \<Rightarrow> nat (max 1 (min m 20)))"
    if "\<forall>st1. fst (go_to_next_page D fast st1) = Inr True"
    using scrape_loop_always_advancing[OF that, of 1 BEAUTIFULSOUP_AVAILABLE expand_rows
        max_pages "[]" st]
    by (cases max_pages) (simp_all del: scrape_loop.simps)
  show ?thesis using a b by blast
qed

lemma endless_advances: "\<forall>st1. fst (go_to_next_page endless_driver False st1) = Inr True"
  by (simp add: endless_go_to_next_page)

text \<open>
  The claim as stated bounds the pages by \<open>max_pages\<close>.  With a cap of 0 one page is
  processed: the first page is scraped before the cap is looked at.
\<close>

theorem scrape_loop_page_bound_counterexample:
  "pages_processed (scrape_loop endless_driver True False True (Some 0) 1 [] (0, [])) = Some 1"
  using scrape_loop_always_advancing[OF endless_advances, of 1 True True "Some 0" "[]" "(0, [])"]
  by (simp del: scrape_loop.simps)

theorem scrape_loop_page_bound_witness:
  "(\<forall>st1. fst (go_to_next_page endless_driver False st1) = Inr True)
   \<and> pages_processed (scrape_loop endless_driver True False True (Some 1) 1 [] (0, [])) = Some 1
   \<and> pages_processed (scrape_loop endless_driver True False True (Some 3) 1 [] (0, [])) = Some 3
   \<and> pages_processed (scrape_loop endless_driver True False True (Some 25) 1 [] (0, [])) = Some 20
   \<and> pages_processed (scrape_loop endless_driver True False True None 1 [] (0, [])) = Some 20
   \<and> pages_processed (scrape_loop demo_driver True False True (Some 3) 1 [] (0, [])) = Some 1"
proof -
  have d: "pages_processed (scrape_loop demo_driver True False True (Some 3) 1 [] (0, [])) = Some 1"
    using scrape_loop_stops_on_failure[OF demo_scrape_page, of _ "Some 3" 1] demo_go_to_next_page
    by (simp add: pages_processed_def del: scrape_loop.simps)
  show ?thesis
    using scrape_loop_page_bound[of endless_driver True False True "Some 1" "(0, [])"]
      scrape_loop_page_bound[of endless_driver True False True "Some 3" "(0, [])"]
      scrape_loop_page_bound[of endless_driver True False True "Some 25" "(0, [])"]
      scrape_loop_page_bound[of endless_driver True False True None "(0, [])"]
      endless_advances d
    by (simp del: scrape_loop.simps)
qed

end
